theory Spec2Isabelle
  imports Complex_Main
begin

section \<open>Ali-Flux MCP server: a shallow embedding of \<open>index.ts\<close>\<close>

text \<open>
  The program is the TypeScript MCP server of the repository, in its complete variant
  (the one with \<open>WORK_DIR\<close>, \<open>base_dir\<close> and the save-path handling). Its three tools
  are \<open>generate_image\<close>, \<open>check_task_status\<close> and \<open>download_image\<close>; the
  development embeds \<open>isValidGenerateImageArgs\<close>, \<open>isValidTaskIdArgs\<close>,
  \<open>generateImage\<close> and \<open>downloadImage\<close>.

  Conventions of the embedding:
  \<^item> an untyped argument or a JSON payload is a \<open>jsval\<close>;
  \<^item> a \<open>throw\<close> is the outcome \<open>Thrown\<close>, a \<open>return\<close> the outcome \<open>Returned\<close>;
  \<^item> every call that leaves the process (HTTP client, file system, \<open>console.error\<close>)
    is recorded, in program order, in a list of effects; what the outside world answers
    is read from an environment record;
  \<^item> the functions of Node's \<open>path\<close> module are modelled in their POSIX form
    (\<open>path.sep\<close> is \<open>/\<close>).
  The code that runs once at start-up (reading the configuration, creating \<open>SAVE_DIR\<close>,
  registering the tools) is not part of a tool call; its result is the \<open>config\<close>
  record that every function takes.
\<close>

subsection \<open>JavaScript values\<close>

datatype jsval =
    Undefined
  | Null
  | Bool bool
  | Num rat
  | Str string
  | Arr "jsval list"
  | Obj "(string \<times> jsval) list"

text \<open>\<open>typeof v === "object" && v !== null\<close>: arrays and plain objects.\<close>

fun is_object :: "jsval \<Rightarrow> bool" where
  "is_object (Arr _) = True"
| "is_object (Obj _) = True"
| "is_object _ = False"

text \<open>\<open>typeof v === "string"\<close> and \<open>typeof v === "number"\<close>.\<close>

fun is_string :: "jsval \<Rightarrow> bool" where
  "is_string (Str _) = True"
| "is_string _ = False"

fun is_number :: "jsval \<Rightarrow> bool" where
  "is_number (Num _) = True"
| "is_number _ = False"

text \<open>
  JavaScript truthiness, as \<open>||\<close>, \<open>&&\<close>, \<open>?:\<close> and \<open>if\<close> use it. Numbers that
  arrive in a JSON payload are finite, so the only falsy number is zero.
\<close>

fun truthy :: "jsval \<Rightarrow> bool" where
  "truthy Undefined = False"
| "truthy Null = False"
| "truthy (Bool b) = b"
| "truthy (Num n) = (n \<noteq> 0)"
| "truthy (Str s) = (s \<noteq> [])"
| "truthy (Arr _) = True"
| "truthy (Obj _) = True"

text \<open>
  Property read \<open>v.k\<close> on a value that is neither \<open>undefined\<close> nor \<open>null\<close>, for the
  property names the program reads (\<open>prompt\<close>, \<open>size\<close>, \<open>seed\<close>, \<open>steps\<close>,
  \<open>task_id\<close>, \<open>save_path\<close>, \<open>base_dir\<close>, \<open>output\<close>, \<open>task_status\<close>,
  \<open>results\<close>, \<open>url\<close>): none of them is inherited from a prototype, so only a plain
  object can hold one.
\<close>

fun getprop :: "jsval \<Rightarrow> string \<Rightarrow> jsval" where
  "getprop (Obj kvs) k = (case map_of kvs k of Some v \<Rightarrow> v | None \<Rightarrow> Undefined)"
| "getprop _ k = Undefined"

subsection \<open>Node's \<open>path\<close> module (POSIX)\<close>

text \<open>\<open>String.prototype.slice(a, b)\<close> for \<open>0 \<le> a\<close>, \<open>0 \<le> b\<close>.\<close>

definition slice :: "string \<Rightarrow> nat \<Rightarrow> nat \<Rightarrow> string" where
  "slice s a b = take (b - a) (drop a s)"

text \<open>\<open>path.isAbsolute\<close>: the path is not empty and starts with a slash.\<close>

fun path_isAbsolute :: "string \<Rightarrow> bool" where
  "path_isAbsolute [] = False"
| "path_isAbsolute (c # cs) = (c = CHR ''/'')"

text \<open>
  \<open>path.dirname\<close>. The loop runs \<open>i\<close> from \<open>path.length - 1\<close> down to \<open>1\<close> and
  returns \<open>end\<close>; \<open>None\<close> is its \<open>-1\<close>.
\<close>

fun dirname_loop :: "string \<Rightarrow> nat \<Rightarrow> bool \<Rightarrow> nat option" where
  "dirname_loop p 0 matchedSlash = None"
| "dirname_loop p (Suc i) matchedSlash =
     (if p ! Suc i = CHR ''/''
      then (if \<not> matchedSlash then Some (Suc i) else dirname_loop p i matchedSlash)
      else dirname_loop p i False)"

definition path_dirname :: "string \<Rightarrow> string" where
  "path_dirname p =
     (if p = [] then ''.''
      else
        let hasRoot = (hd p = CHR ''/'') in
        case dirname_loop p (length p - 1) True of
          None \<Rightarrow> (if hasRoot then ''/'' else ''.'')
        | Some e \<Rightarrow> (if hasRoot \<and> e = 1 then ''//'' else slice p 0 e))"

text \<open>
  \<open>path.parse\<close>. The loop scans the path from its last character down to \<open>start\<close>
  (\<open>1\<close> for an absolute path, \<open>0\<close> otherwise) and stops at the first slash that is
  not part of the trailing slashes.
\<close>

record parse_state =
  startDot :: "nat option"
  startPart :: nat
  endIdx :: "nat option"
  matchedSlash :: bool
  preDotState :: int

fun parse_loop :: "string \<Rightarrow> nat \<Rightarrow> nat \<Rightarrow> parse_state \<Rightarrow> parse_state" where
  "parse_loop p start 0 s = s"
| "parse_loop p start (Suc i) s =
     (if i < start then s
      else if p ! i = CHR ''/'' then
        (if \<not> matchedSlash s then s\<lparr>startPart := i + 1\<rparr> else parse_loop p start i s)
      else
        let s1 = (if endIdx s = None then s\<lparr>endIdx := Some (i + 1), matchedSlash := False\<rparr>
                  else s);
            s2 = (if p ! i = CHR ''.'' then
                    (if startDot s1 = None then s1\<lparr>startDot := Some i\<rparr>
                     else if preDotState s1 \<noteq> 1 then s1\<lparr>preDotState := 1\<rparr>
                     else s1)
                  else if startDot s1 \<noteq> None then s1\<lparr>preDotState := - 1\<rparr>
                  else s1)
        in parse_loop p start i s2)"

record parsed_path =
  root :: string
  dir :: string
  base :: string
  ext :: string
  name :: string

definition path_parse :: "string \<Rightarrow> parsed_path" where
  "path_parse p =
     (if p = [] then \<lparr>root = [], dir = [], base = [], ext = [], name = []\<rparr>
      else
        let isAbs = (hd p = CHR ''/'');
            start = (if isAbs then 1 else 0);
            s = parse_loop p start (length p)
                  \<lparr>startDot = None, startPart = 0, endIdx = None,
                   matchedSlash = True, preDotState = 0\<rparr>;
            ret = \<lparr>root = (if isAbs then ''/'' else []), dir = [], base = [], ext = [],
                   name = []\<rparr>;
            ret1 =
              (case endIdx s of
                 None \<Rightarrow> ret
               | Some e \<Rightarrow>
                   let st = (if startPart s = 0 \<and> isAbs then 1 else startPart s) in
                   if startDot s = None \<or> preDotState s = 0 \<or>
                      (preDotState s = 1 \<and> startDot s = Some (e - 1) \<and>
                       startDot s = Some (startPart s + 1))
                   then ret\<lparr>base := slice p st e, name := slice p st e\<rparr>
                   else ret\<lparr>name := slice p st (the (startDot s)),
                            base := slice p st e,
                            ext := slice p (the (startDot s)) e\<rparr>)
        in if startPart s > 0 then ret1\<lparr>dir := slice p 0 (startPart s - 1)\<rparr>
           else if isAbs then ret1\<lparr>dir := ''/''\<rparr>
           else ret1)"

text \<open>
  \<open>path.normalize\<close> and \<open>path.join\<close>. Node's \<open>normalizeString\<close> walks the
  characters; here it walks the slash-separated segments, which is the same
  computation: an empty segment and \<open>.\<close> are dropped, \<open>..\<close> removes the last kept
  segment unless there is none or it is \<open>..\<close> itself (then \<open>..\<close> is kept when the
  path is relative), and any other segment is kept.
\<close>

fun split_slash :: "string \<Rightarrow> string list" where
  "split_slash [] = [[]]"
| "split_slash (c # cs) =
     (if c = CHR ''/'' then [] # split_slash cs
      else (case split_slash cs of
              [] \<Rightarrow> [[c]]
            | seg # segs \<Rightarrow> (c # seg) # segs))"

fun join_slash :: "string list \<Rightarrow> string" where
  "join_slash [] = []"
| "join_slash [seg] = seg"
| "join_slash (seg # segs) = seg @ ''/'' @ join_slash segs"

fun normalize_segments :: "bool \<Rightarrow> string list \<Rightarrow> string list \<Rightarrow> string list" where
  "normalize_segments allowAboveRoot res [] = res"
| "normalize_segments allowAboveRoot res (seg # segs) =
     (if seg = [] \<or> seg = ''.'' then normalize_segments allowAboveRoot res segs
      else if seg = ''..'' then
        (if res \<noteq> [] \<and> last res \<noteq> ''..''
         then normalize_segments allowAboveRoot (butlast res) segs
         else if allowAboveRoot
         then normalize_segments allowAboveRoot (res @ [''..'']) segs
         else normalize_segments allowAboveRoot res segs)
      else normalize_segments allowAboveRoot (res @ [seg]) segs)"

definition normalizeString :: "string \<Rightarrow> bool \<Rightarrow> string" where
  "normalizeString p allowAboveRoot =
     join_slash (normalize_segments allowAboveRoot [] (split_slash p))"

definition path_normalize :: "string \<Rightarrow> string" where
  "path_normalize p =
     (if p = [] then ''.''
      else
        let isAbs = (hd p = CHR ''/'');
            trailingSeparator = (last p = CHR ''/'');
            r = normalizeString p (\<not> isAbs)
        in if r = [] then (if isAbs then ''/'' else if trailingSeparator then ''./'' else ''.'')
           else
             let r1 = (if trailingSeparator then r @ ''/'' else r)
             in if isAbs then ''/'' @ r1 else r1)"

text \<open>\<open>path.join(a, b)\<close>: the non-empty arguments, joined by a slash, normalised.\<close>

definition path_join :: "string \<Rightarrow> string \<Rightarrow> string" where
  "path_join a b =
     (case filter (\<lambda>s. s \<noteq> []) [a, b] of
        [] \<Rightarrow> ''.''
      | args \<Rightarrow> path_normalize (join_slash args))"

subsection \<open>Template literals\<close>

text \<open>\<open>`${i}`\<close> for a loop index \<open>i\<close>: its decimal digits.\<close>

definition digit_char :: "nat \<Rightarrow> char" where
  "digit_char d = char_of (48 + d)"

fun string_of_nat :: "nat \<Rightarrow> string" where
  "string_of_nat n =
     (if n < 10 then [digit_char n]
      else string_of_nat (n div 10) @ [digit_char (n mod 10)])"

declare string_of_nat.simps [simp del]

subsection \<open>Errors, results, effects and the environment\<close>

datatype error_code = InvalidParams | MethodNotFound

text \<open>
  What the program can throw or catch. \<open>AxiosError d m\<close> is an error of the HTTP
  client with \<open>error.response?.data = d\<close> (\<open>Undefined\<close> when there is no response)
  and \<open>error.message = m\<close>; \<open>TypeError\<close> is the runtime's error on reading a
  property of \<open>undefined\<close> or \<open>null\<close> or calling what is not a function;
  \<open>SystemError m\<close> is an \<open>Error\<close> of the file system with message \<open>m\<close>.
\<close>

datatype js_error =
    McpError error_code string
  | AxiosError jsval string
  | TypeError
  | SystemError string
  | OtherError string

text \<open>The tool result \<open>{ content: [{ type: "text", text }], isError }\<close>.\<close>

record tool_result =
  text_of :: string
  isError :: bool

datatype outcome = Returned tool_result | Thrown js_error

text \<open>
  The calls that leave the process. \<open>MkdirSync p r\<close> is \<open>fs.mkdirSync(p, { recursive: r })\<close>.
\<close>

datatype effect =
    ApiPost string jsval
  | ApiGet string
  | ConsoleError string
  | ExistsSync string
  | MkdirSync string bool
  | AxiosGet jsval
  | WriteFile string string

datatype fs_entry = RegularFile | Directory

text \<open>The process-wide configuration, read once at start-up.\<close>

record config =
  SAVE_DIR :: string
  MODEL_NAME :: string
  WORK_DIR :: string

text \<open>
  What the outside world answers: the DashScope API behind \<open>apiClient\<close>, the
  artifact hosts behind \<open>axios.get\<close>, the file system (\<open>fs_entries\<close> is what
  exists at a path, \<open>mkdirSync\<close> and \<open>writeFile\<close> give the message of the error
  they throw, if any), \<open>Math.random()\<close>, and the runtime's \<open>JSON.stringify(v)\<close> and
  \<open>JSON.stringify(v, null, 2)\<close>.
\<close>

record env =
  api_post :: "string \<Rightarrow> jsval \<Rightarrow> js_error + jsval"
  api_get :: "string \<Rightarrow> js_error + jsval"
  axios_get :: "jsval \<Rightarrow> js_error + string"
  fs_entries :: "string \<Rightarrow> fs_entry option"
  mkdirSync :: "string \<Rightarrow> string option"
  writeFile :: "string \<Rightarrow> string \<Rightarrow> string option"
  math_random :: rat
  stringify :: "jsval \<Rightarrow> string"
  stringify2 :: "jsval \<Rightarrow> string"

text \<open>\<open>fs.existsSync\<close>: something, of any kind, is at the path.\<close>

definition existsSync :: "env \<Rightarrow> string \<Rightarrow> bool" where
  "existsSync E p = (fs_entries E p \<noteq> None)"

text \<open>
  The \<open>catch (error)\<close> block that closes each tool function: an error of the HTTP
  client (\<open>axios.isAxiosError(error)\<close>) becomes an error-flagged result with the text
  \<open>JSON.stringify(error.response?.data) || error.message\<close>, anything else is thrown
  again.
\<close>

fun catch_error :: "env \<Rightarrow> js_error \<Rightarrow> outcome" where
  "catch_error E (AxiosError d m) =
     Returned \<lparr>text_of = ''API request error: '' @
                 (if d \<noteq> Undefined \<and> stringify E d \<noteq> [] then stringify E d else m),
               isError = True\<rparr>"
| "catch_error E error = Thrown error"

subsection \<open>Argument validation\<close>

definition isValidGenerateImageArgs :: "jsval \<Rightarrow> bool" where
  "isValidGenerateImageArgs args =
     (is_object args \<and>
      is_string (getprop args ''prompt'') \<and>
      (getprop args ''size'' = Undefined \<or> is_string (getprop args ''size'')) \<and>
      (getprop args ''seed'' = Undefined \<or> is_number (getprop args ''seed'')) \<and>
      (getprop args ''steps'' = Undefined \<or> is_number (getprop args ''steps'')))"

fun the_Str :: "jsval \<Rightarrow> string" where
  "the_Str (Str s) = s"
| "the_Str _ = []"

definition isValidTaskIdArgs :: "jsval \<Rightarrow> bool" where
  "isValidTaskIdArgs args =
     (is_object args \<and>
      is_string (getprop args ''task_id'') \<and>
      (getprop args ''save_path'' = Undefined \<or>
       (is_string (getprop args ''save_path'') \<and>
        (path_isAbsolute (the_Str (getprop args ''save_path'')) \<or>
         getprop args ''save_path'' = Str []))) \<and>
      (getprop args ''base_dir'' = Undefined \<or> is_string (getprop args ''base_dir'')))"

subsection \<open>\<open>generateImage\<close>\<close>

definition generation_endpoint :: string where
  "generation_endpoint = ''/services/aigc/text2image/image-synthesis''"

definition generation_body :: "config \<Rightarrow> env \<Rightarrow> jsval \<Rightarrow> jsval" where
  "generation_body C E args =
     Obj [(''model'', Str (MODEL_NAME C)),
          (''input'', Obj [(''prompt'', getprop args ''prompt'')]),
          (''parameters'',
             Obj [(''size'', if truthy (getprop args ''size'') then getprop args ''size''
                            else Str ''1024*1024''),
                  (''seed'', if getprop args ''seed'' \<noteq> Undefined then getprop args ''seed''
                            else Num (of_int \<lfloor>math_random E * 1000\<rfloor>)),
                  (''steps'', if truthy (getprop args ''steps'') then getprop args ''steps''
                             else Num 4)])]"

definition generateImage :: "config \<Rightarrow> env \<Rightarrow> jsval \<Rightarrow> outcome \<times> effect list" where
  "generateImage C E args =
     (if \<not> isValidGenerateImageArgs args
      then (Thrown (McpError InvalidParams ''Invalid image generation parameters''), [])
      else
        let body = generation_body C E args in
        (case api_post E generation_endpoint body of
           Inr data \<Rightarrow> Returned \<lparr>text_of = stringify2 E data, isError = False\<rparr>
         | Inl error \<Rightarrow> catch_error E error,
         [ApiPost generation_endpoint body]))"

subsection \<open>\<open>downloadImage\<close>\<close>

text \<open>\<open>v.k\<close> on any value: reading a property of \<open>undefined\<close> or \<open>null\<close> throws.\<close>

definition member :: "jsval \<Rightarrow> string \<Rightarrow> js_error + jsval" where
  "member v k = (if v = Undefined \<or> v = Null then Inl TypeError else Inr (getprop v k))"

text \<open>\<open>statusData.output.task_status\<close>.\<close>

definition task_status_of :: "jsval \<Rightarrow> js_error + jsval" where
  "task_status_of statusData =
     (case member statusData ''output'' of
        Inl error \<Rightarrow> Inl error
      | Inr output \<Rightarrow> member output ''task_status'')"

text \<open>
  \<open>statusData.output.results.map((result) => result.url)\<close>, evaluated once
  \<open>statusData.output\<close> has been read without a throw: only an array has a \<open>map\<close>
  to call, and the callback reads \<open>url\<close> of each element in turn.
\<close>

fun map_url :: "jsval list \<Rightarrow> js_error + jsval list" where
  "map_url [] = Inr []"
| "map_url (result # results) =
     (case member result ''url'' of
        Inl error \<Rightarrow> Inl error
      | Inr url \<Rightarrow>
          (case map_url results of
             Inl error \<Rightarrow> Inl error
           | Inr urls \<Rightarrow> Inr (url # urls)))"

definition imageUrls_of :: "jsval \<Rightarrow> js_error + jsval list" where
  "imageUrls_of statusData =
     (case getprop (getprop statusData ''output'') ''results'' of
        Arr results \<Rightarrow> map_url results
      | _ \<Rightarrow> Inl TypeError)"

text \<open>
  The save-path block: from \<open>save_path\<close> to \<open>targetDir\<close> and \<open>customFilename\<close>
  (\<open>None\<close> is its \<open>null\<close>), or the early return for a path that is not absolute.
\<close>

definition resolve_target :: "config \<Rightarrow> jsval \<Rightarrow> tool_result + string \<times> string option" where
  "resolve_target C customSavePath =
     (if truthy customSavePath then
        let s = the_Str customSavePath in
        if \<not> path_isAbsolute s then
          Inl \<lparr>text_of = ''Invalid save_path: '' @ [CHR 0x22] @ s @ [CHR 0x22] @
                  ''. Must be an absolute path (e.g. /Users/username/Downloads/image.jpg)'',
               isError = True\<rparr>
        else
          let parsedPath = path_parse s;
              hasExtension = (ext parsedPath \<noteq> [] \<and> base parsedPath \<noteq> dir parsedPath)
          in if hasExtension then
               (if CHR ''/'' \<notin> set s then Inr ([], Some (base parsedPath))
                else Inr (path_dirname s, Some (base parsedPath)))
             else Inr (s, None)
      else Inr (SAVE_DIR C, None))"

text \<open>\<open>const baseDir = typedArgs.base_dir || WORK_DIR\<close>.\<close>

definition baseDir_of :: "config \<Rightarrow> jsval \<Rightarrow> string" where
  "baseDir_of C args =
     (if truthy (getprop args ''base_dir'') then the_Str (getprop args ''base_dir'')
      else WORK_DIR C)"

definition absoluteTargetDir_of :: "string \<Rightarrow> string \<Rightarrow> string" where
  "absoluteTargetDir_of baseDir targetDir =
     (if path_isAbsolute targetDir then targetDir else path_join baseDir targetDir)"

text \<open>The default name of artifact \<open>i\<close>: \<open>`${args.task_id}_${i}.png`\<close>.\<close>

definition default_name :: "string \<Rightarrow> nat \<Rightarrow> string" where
  "default_name task_id i = task_id @ ''_'' @ string_of_nat i @ ''.png''"

text \<open>
  The name of artifact \<open>i\<close>:
  \<open>i === 0 && customFilename ? customFilename : `${args.task_id}_${i}.png`\<close>.
\<close>

definition filename_of :: "string \<Rightarrow> string option \<Rightarrow> nat \<Rightarrow> string" where
  "filename_of task_id customFilename i =
     (case customFilename of
        Some f \<Rightarrow> (if i = 0 \<and> f \<noteq> [] then f else default_name task_id i)
      | None \<Rightarrow> default_name task_id i)"

text \<open>
  The \<open>for\<close> loop, from index \<open>i\<close> over the URLs that are left: fetch, write, record.
  It gives the entries pushed to \<open>downloadResults\<close>, or the error that ended it, and
  the effects it had.
\<close>

fun download_loop ::
  "env \<Rightarrow> string \<Rightarrow> string \<Rightarrow> string option \<Rightarrow> nat \<Rightarrow> jsval list
   \<Rightarrow> (js_error + jsval list) \<times> effect list" where
  "download_loop E targetDir task_id customFilename i [] = (Inr [], [])"
| "download_loop E targetDir task_id customFilename i (url # urls) =
     (let savePath = path_join targetDir (filename_of task_id customFilename i) in
      case axios_get E url of
        Inl error \<Rightarrow> (Inl error, [AxiosGet url])
      | Inr data \<Rightarrow>
          (case writeFile E savePath data of
             Some msg \<Rightarrow> (Inl (SystemError msg), [AxiosGet url, WriteFile savePath data])
           | None \<Rightarrow>
               (case download_loop E targetDir task_id customFilename (Suc i) urls of
                  (Inl error, effs) \<Rightarrow>
                    (Inl error, AxiosGet url # WriteFile savePath data # effs)
                | (Inr downloadResults, effs) \<Rightarrow>
                    (Inr (Obj [(''url'', url), (''saved_to'', Str savePath)] # downloadResults),
                     AxiosGet url # WriteFile savePath data # effs))))"

text \<open>The line written by \<open>console.error\<close> inside the inner \<open>try\<close>.\<close>

definition resolving_message :: "string \<Rightarrow> string \<Rightarrow> string \<Rightarrow> string" where
  "resolving_message targetDir baseDir absoluteTargetDir =
     ''Resolving path: '' @ (if targetDir \<noteq> [] then targetDir else ''(empty)'') @
     '' against base: '' @ baseDir @ '' => '' @ absoluteTargetDir"

text \<open>
  How the function ends once the loop is over: the final \<open>return\<close> when the loop
  ran to its end, the outer \<open>catch\<close> block when a fetch or a write threw.
\<close>

definition finish_download :: "env \<Rightarrow> string \<Rightarrow> js_error + jsval list \<Rightarrow> outcome" where
  "finish_download E task_id r =
     (case r of
        Inl error \<Rightarrow> catch_error E error
      | Inr downloadResults \<Rightarrow>
          Returned
            \<lparr>text_of = stringify2 E
               (Obj [(''message'', Str ''Image download completed''),
                     (''task_id'', Str task_id),
                     (''downloads'', Arr downloadResults)]),
             isError = False\<rparr>)"

text \<open>
  From the inner \<open>try\<close> (resolve the directory, create it when nothing exists at its
  path; a throw in there is the \<open>Failed to create directory\<close> result) to the end.
\<close>

definition save_all ::
  "env \<Rightarrow> string \<Rightarrow> string \<Rightarrow> string \<Rightarrow> string option \<Rightarrow> jsval list
   \<Rightarrow> outcome \<times> effect list" where
  "save_all E task_id baseDir targetDir customFilename imageUrls =
     (let absoluteTargetDir = absoluteTargetDir_of baseDir targetDir;
          logged = [ConsoleError (resolving_message targetDir baseDir absoluteTargetDir),
                    ExistsSync absoluteTargetDir]
      in if existsSync E absoluteTargetDir then
           (case download_loop E absoluteTargetDir task_id customFilename 0 imageUrls of
              (r, effs) \<Rightarrow> (finish_download E task_id r, logged @ effs))
         else
           (case mkdirSync E absoluteTargetDir of
              Some msg \<Rightarrow>
                (Returned \<lparr>text_of = ''Failed to create directory: '' @ msg,
                           isError = True\<rparr>,
                 logged @ [MkdirSync absoluteTargetDir True])
            | None \<Rightarrow>
                (case download_loop E absoluteTargetDir task_id customFilename 0 imageUrls of
                   (r, effs) \<Rightarrow>
                     (finish_download E task_id r,
                      logged @ MkdirSync absoluteTargetDir True # effs))))"

definition downloadImage :: "config \<Rightarrow> env \<Rightarrow> jsval \<Rightarrow> outcome \<times> effect list" where
  "downloadImage C E args =
     (if \<not> isValidTaskIdArgs args
      then (Thrown (McpError InvalidParams ''Invalid task ID parameter''), [])
      else
        let task_id = the_Str (getprop args ''task_id'');
            fetched = [ApiGet (''/tasks/'' @ task_id)]
        in case api_get E (''/tasks/'' @ task_id) of
             Inl error \<Rightarrow> (catch_error E error, fetched)
           | Inr statusData \<Rightarrow>
               (case task_status_of statusData of
                  Inl error \<Rightarrow> (catch_error E error, fetched)
                | Inr task_status \<Rightarrow>
                    if task_status \<noteq> Str ''SUCCEEDED'' then
                      (Returned \<lparr>text_of = ''Task not completed or failed: '' @
                                   stringify2 E statusData,
                                 isError = True\<rparr>,
                       fetched)
                    else
                      (case imageUrls_of statusData of
                         Inl error \<Rightarrow> (catch_error E error, fetched)
                       | Inr imageUrls \<Rightarrow>
                           if imageUrls = [] then
                             (Returned \<lparr>text_of = ''No image URL found'', isError = True\<rparr>,
                              fetched)
                           else
                             (case resolve_target C (getprop args ''save_path'') of
                                Inl invalid \<Rightarrow> (Returned invalid, fetched)
                              | Inr (targetDir, customFilename) \<Rightarrow>
                                  (case save_all E task_id (baseDir_of C args) targetDir
                                          customFilename imageUrls of
                                     (result, effs) \<Rightarrow> (result, fetched @ effs))))))"

subsection \<open>Reading a run\<close>

text \<open>
  The paths written, the artifact URLs fetched, the directories created (each with the
  \<open>recursive\<close> option of its call), the paths probed, and the effects other than
  logging.
\<close>

fun written_paths :: "effect list \<Rightarrow> string list" where
  "written_paths [] = []"
| "written_paths (WriteFile p d # effs) = p # written_paths effs"
| "written_paths (_ # effs) = written_paths effs"

fun artifact_fetches :: "effect list \<Rightarrow> jsval list" where
  "artifact_fetches [] = []"
| "artifact_fetches (AxiosGet url # effs) = url # artifact_fetches effs"
| "artifact_fetches (_ # effs) = artifact_fetches effs"

fun created_dirs :: "effect list \<Rightarrow> (string \<times> bool) list" where
  "created_dirs [] = []"
| "created_dirs (MkdirSync p recursive # effs) = (p, recursive) # created_dirs effs"
| "created_dirs (_ # effs) = created_dirs effs"

fun probed_paths :: "effect list \<Rightarrow> string list" where
  "probed_paths [] = []"
| "probed_paths (ExistsSync p # effs) = p # probed_paths effs"
| "probed_paths (_ # effs) = probed_paths effs"

fun io_effects :: "effect list \<Rightarrow> effect list" where
  "io_effects [] = []"
| "io_effects (ConsoleError m # effs) = io_effects effs"
| "io_effects (e # effs) = e # io_effects effs"

subsection \<open>Example configuration and environments\<close>

definition example_config :: config where
  "example_config =
     \<lparr>SAVE_DIR = ''/srv/flux-images'', MODEL_NAME = ''flux-merged'', WORK_DIR = ''/srv/work''\<rparr>"

text \<open>The status payload \<open>{ output: { task_status, results } }\<close>.\<close>

definition status_payload :: "string \<Rightarrow> jsval list \<Rightarrow> jsval" where
  "status_payload st results =
     Obj [(''output'', Obj [(''task_status'', Str st), (''results'', Arr results)])]"

text \<open>
  An environment in which the status request answers \<open>statusData\<close>, every artifact is
  the three bytes \<open>PNG\<close>, the file system is empty and every call succeeds.
\<close>

definition example_env :: "jsval \<Rightarrow> env" where
  "example_env statusData =
     \<lparr>api_post = (\<lambda>endpoint body. Inr (Obj [(''output'', Obj [(''task_id'', Str ''t1'')])])),
      api_get = (\<lambda>endpoint. Inr statusData),
      axios_get = (\<lambda>url. Inr ''PNG''),
      fs_entries = (\<lambda>p. None),
      mkdirSync = (\<lambda>p. None),
      writeFile = (\<lambda>p d. None),
      math_random = 1 / 2,
      stringify = (\<lambda>v. ''{}''),
      stringify2 = (\<lambda>v. ''{ }'')\<rparr>"

text \<open>
  The same, but a regular file stands at \<open>/tmp/out\<close> and a write below it fails;
  and the same, but no directory can be created.
\<close>

definition blocked_env :: "jsval \<Rightarrow> env" where
  "blocked_env statusData =
     (example_env statusData)
       \<lparr>fs_entries := (\<lambda>p. if p = ''/tmp/out'' then Some RegularFile else None),
        writeFile := (\<lambda>p d. Some ''ENOTDIR: not a directory, open'')\<rparr>"

definition readonly_env :: "jsval \<Rightarrow> env" where
  "readonly_env statusData =
     (example_env statusData)\<lparr>mkdirSync := (\<lambda>p. Some ''EACCES: permission denied, mkdir'')\<rparr>"

text \<open>A status payload of a succeeded task with two artifacts.\<close>

definition two_artifacts :: jsval where
  "two_artifacts =
     status_payload ''SUCCEEDED''
       [Obj [(''url'', Str ''https://host/a.png'')], Obj [(''url'', Str ''https://host/b.png'')]]"

section \<open>Properties\<close>

subsection \<open>Decimal indices and paths\<close>

lemma digit_char_code: "d < 10 \<Longrightarrow> of_char (digit_char d) = 48 + d"
  by (simp add: digit_char_def)

lemma decimal_of_string_of_nat:
  "foldl (\<lambda>a c. 10 * a + (of_char c - 48)) 0 (string_of_nat n) = n"
proof (induction n rule: string_of_nat.induct)
  case (1 n)
  show ?case
  proof (cases "n < 10")
    case True
    then show ?thesis
      by (subst string_of_nat.simps) (simp add: digit_char_code)
  next
    case False
    then have "foldl (\<lambda>a c. 10 * a + (of_char c - 48)) 0 (string_of_nat (n div 10)) = n div 10"
      using "1.IH" by simp
    with False show ?thesis
      by (subst string_of_nat.simps) (simp add: digit_char_code)
  qed
qed

lemma string_of_nat_inj: "string_of_nat i = string_of_nat j \<Longrightarrow> i = j"
  by (metis decimal_of_string_of_nat)

lemma digit_char_not_slash: "d < 10 \<Longrightarrow> CHR ''/'' \<noteq> digit_char d"
proof
  assume "d < 10" and "CHR ''/'' = digit_char d"
  then have "of_char (digit_char d) = (of_char CHR ''/'' :: nat)" by simp
  with \<open>d < 10\<close> show False by (simp add: digit_char_code)
qed

lemma string_of_nat_no_slash: "CHR ''/'' \<notin> set (string_of_nat n)"
proof (induction n rule: string_of_nat.induct)
  case (1 n)
  show ?case
  proof (cases "n < 10")
    case True
    then show ?thesis
      by (subst string_of_nat.simps) (simp add: digit_char_not_slash)
  next
    case False
    then have "CHR ''/'' \<notin> set (string_of_nat (n div 10))" using "1.IH" by simp
    with False show ?thesis
      by (subst string_of_nat.simps) (simp add: digit_char_not_slash)
  qed
qed

lemma dirname_loop_bounds: "dirname_loop p i m = Some e \<Longrightarrow> 1 \<le> e \<and> e \<le> i"
  by (induction p i m rule: dirname_loop.induct) (auto split: if_splits)

lemma path_dirname_absolute: "path_isAbsolute p \<Longrightarrow> path_isAbsolute (path_dirname p)"
proof (cases p)
  case Nil
  then show "path_isAbsolute p \<Longrightarrow> ?thesis" by simp
next
  case (Cons c cs)
  assume "path_isAbsolute p"
  with Cons have c: "c = CHR ''/''" by simp
  show ?thesis
  proof (cases "dirname_loop p (length p - 1) True")
    case None
    with Cons c show ?thesis by (simp add: path_dirname_def)
  next
    case (Some e)
    then have "1 \<le> e" using dirname_loop_bounds by blast
    then obtain e' where "e = Suc e'" by (cases e) auto
    with Some Cons c show ?thesis by (simp add: path_dirname_def slice_def)
  qed
qed

lemma split_slash_no_slash: "CHR ''/'' \<notin> set b \<Longrightarrow> split_slash b = [b]"
  by (induction b) auto

lemma path_join_plain:
  assumes "CHR ''/'' \<notin> set b" "b \<noteq> []" "b \<noteq> ''.''" "b \<noteq> ''..''"
  shows "path_join ''/tmp/out'' b = ''/tmp/out/'' @ b"
proof -
  have "last (''/tmp/out/'' @ b) \<noteq> CHR ''/''"
    using assms by (metis last_appendR last_in_set)
  then show ?thesis
    using assms
    by (simp add: path_join_def path_normalize_def normalizeString_def split_slash_no_slash)
qed

subsection \<open>C1: a bare filename as \<open>save_path\<close>\<close>

text \<open>
  C1 says that a bare filename such as \<open>report.png\<close>, given with a \<open>base_dir\<close>, is
  saved inside \<open>base_dir\<close>. The program does not get that far: \<open>isValidTaskIdArgs\<close>
  accepts a \<open>save_path\<close> only when it is absolute or empty, and \<open>downloadImage\<close> throws
  \<open>InvalidParams\<close> before the status request. At the input of the specification the
  run is the throw, with no effect at all: nothing is resolved and nothing is written.
\<close>

theorem bare_filename_counterexample:
  "downloadImage example_config
     (example_env (status_payload ''SUCCEEDED'' [Obj [(''url'', Str ''https://host/a.png'')]]))
     (Obj [(''task_id'', Str ''t1''), (''save_path'', Str ''report.png''),
           (''base_dir'', Str ''/home/u/work'')])
   = (Thrown (McpError InvalidParams ''Invalid task ID parameter''), [])"
  by (simp add: downloadImage_def isValidTaskIdArgs_def)

text \<open>
  C1, amended: for every call whose \<open>save_path\<close> is a non-empty string without a
  slash, whatever the other arguments, the configuration and the environment,
  \<open>downloadImage\<close> throws the \<open>InvalidParams\<close> error \<open>Invalid task ID parameter\<close> and
  has no effect: no status request, no file-system access, no artifact fetched.
\<close>

theorem bare_filename_rejected:
  assumes "getprop args ''save_path'' = Str s" and "s \<noteq> []" and "CHR ''/'' \<notin> set s"
  shows "downloadImage C E args =
           (Thrown (McpError InvalidParams ''Invalid task ID parameter''), [])"
proof -
  from assms(2,3) have "\<not> path_isAbsolute s" by (cases s) auto
  with assms(1,2) have "\<not> isValidTaskIdArgs args" by (simp add: isValidTaskIdArgs_def)
  then show ?thesis by (simp add: downloadImage_def)
qed

text \<open>Witness for C1: the amended claim at \<open>save_path = "pic.jpg"\<close>.\<close>

theorem bare_filename_rejected_witness:
  "getprop (Obj [(''task_id'', Str ''t2''), (''save_path'', Str ''pic.jpg'')]) ''save_path''
     = Str ''pic.jpg'' \<and>
   ''pic.jpg'' \<noteq> [] \<and> CHR ''/'' \<notin> set ''pic.jpg'' \<and>
   downloadImage example_config (example_env Null)
     (Obj [(''task_id'', Str ''t2''), (''save_path'', Str ''pic.jpg'')])
   = (Thrown (McpError InvalidParams ''Invalid task ID parameter''), [])"
  using bare_filename_rejected
    [of "Obj [(''task_id'', Str ''t2''), (''save_path'', Str ''pic.jpg'')]" "''pic.jpg''"
        example_config "example_env Null"]
  by simp

subsection \<open>C2: a task that has not succeeded\<close>

text \<open>
  C2 says that the result for a task whose status is not \<open>SUCCEEDED\<close> is not flagged as
  an error. The program returns it with \<open>isError: true\<close>: at a task that is \<open>RUNNING\<close>
  the result is error-flagged, after the status request and nothing else.
\<close>

theorem incomplete_task_counterexample:
  "downloadImage example_config (example_env (status_payload ''RUNNING'' []))
     (Obj [(''task_id'', Str ''t1'')])
   = (Returned \<lparr>text_of = ''Task not completed or failed: { }'', isError = True\<rparr>,
      [ApiGet ''/tasks/t1''])"
  by (simp add: downloadImage_def isValidTaskIdArgs_def example_env_def status_payload_def
        task_status_of_def member_def)

text \<open>
  C2, amended: for every accepted call whose status request answers a payload with a
  \<open>task_status\<close> other than \<open>SUCCEEDED\<close>, \<open>downloadImage\<close> returns a result flagged
  \<open>isError: true\<close> whose text is \<open>Task not completed or failed: \<close> followed by the
  whole status payload as JSON; the status request is its only effect, so the file
  system is not touched and no artifact is fetched.
\<close>

theorem incomplete_task_error_flagged:
  assumes "isValidTaskIdArgs args"
    and "api_get E (''/tasks/'' @ the_Str (getprop args ''task_id'')) = Inr statusData"
    and "task_status_of statusData = Inr task_status"
    and "task_status \<noteq> Str ''SUCCEEDED''"
  shows "downloadImage C E args =
           (Returned \<lparr>text_of = ''Task not completed or failed: '' @ stringify2 E statusData,
                      isError = True\<rparr>,
            [ApiGet (''/tasks/'' @ the_Str (getprop args ''task_id''))])"
  using assms by (simp add: downloadImage_def)

text \<open>Witness for C2: a task that is \<open>FAILED\<close>.\<close>

theorem incomplete_task_error_flagged_witness:
  "isValidTaskIdArgs (Obj [(''task_id'', Str ''t3'')]) \<and>
   api_get (example_env (status_payload ''FAILED'' [])) ''/tasks/t3''
     = Inr (status_payload ''FAILED'' []) \<and>
   task_status_of (status_payload ''FAILED'' []) = Inr (Str ''FAILED'') \<and>
   Str ''FAILED'' \<noteq> Str ''SUCCEEDED'' \<and>
   downloadImage example_config (example_env (status_payload ''FAILED'' []))
     (Obj [(''task_id'', Str ''t3'')])
   = (Returned \<lparr>text_of = ''Task not completed or failed: { }'', isError = True\<rparr>,
      [ApiGet ''/tasks/t3''])"
  using incomplete_task_error_flagged
    [of "Obj [(''task_id'', Str ''t3'')]" "example_env (status_payload ''FAILED'' [])"
        "status_payload ''FAILED'' []" "Str ''FAILED''" example_config]
  by (simp add: isValidTaskIdArgs_def example_env_def status_payload_def task_status_of_def
        member_def)

subsection \<open>C3: a succeeded task without artifacts\<close>

text \<open>
  The half of C3 about an empty \<open>results\<close> list holds: the result is the error-flagged
  \<open>No image URL found\<close>, after the status request and nothing else.
\<close>

lemma empty_results_no_artifacts:
  assumes "isValidTaskIdArgs args"
    and "api_get E (''/tasks/'' @ the_Str (getprop args ''task_id'')) = Inr statusData"
    and "task_status_of statusData = Inr (Str ''SUCCEEDED'')"
    and "getprop (getprop statusData ''output'') ''results'' = Arr []"
  shows "downloadImage C E args =
           (Returned \<lparr>text_of = ''No image URL found'', isError = True\<rparr>,
            [ApiGet (''/tasks/'' @ the_Str (getprop args ''task_id''))])"
  using assms by (simp add: downloadImage_def imageUrls_of_def)

text \<open>
  C3, the half about an absent \<open>results\<close> field, on the code: \<open>results.map\<close> is
  evaluated before the test \<open>!imageUrls || imageUrls.length === 0\<close>, so for every
  accepted call whose status payload says \<open>SUCCEEDED\<close> and has no \<open>results\<close> the
  program throws a \<open>TypeError\<close>, which the \<open>catch\<close> block throws again; no
  \<open>No image URL found\<close> result is returned. The file system is not touched.
\<close>

theorem absent_results_throws:
  assumes "isValidTaskIdArgs args"
    and "api_get E (''/tasks/'' @ the_Str (getprop args ''task_id'')) = Inr statusData"
    and "task_status_of statusData = Inr (Str ''SUCCEEDED'')"
    and "getprop (getprop statusData ''output'') ''results'' = Undefined"
  shows "downloadImage C E args =
           (Thrown TypeError, [ApiGet (''/tasks/'' @ the_Str (getprop args ''task_id''))])"
  using assms by (simp add: downloadImage_def imageUrls_of_def)

text \<open>
  Witness for C3: the payload \<open>{ output: { task_status: "SUCCEEDED" } }\<close>.
\<close>

theorem absent_results_throws_witness:
  "isValidTaskIdArgs (Obj [(''task_id'', Str ''t1'')]) \<and>
   task_status_of (Obj [(''output'', Obj [(''task_status'', Str ''SUCCEEDED'')])])
     = Inr (Str ''SUCCEEDED'') \<and>
   getprop (getprop (Obj [(''output'', Obj [(''task_status'', Str ''SUCCEEDED'')])]) ''output'')
     ''results'' = Undefined \<and>
   downloadImage example_config
     (example_env (Obj [(''output'', Obj [(''task_status'', Str ''SUCCEEDED'')])]))
     (Obj [(''task_id'', Str ''t1'')])
   = (Thrown TypeError, [ApiGet ''/tasks/t1''])"
  using absent_results_throws
    [of "Obj [(''task_id'', Str ''t1'')]"
        "example_env (Obj [(''output'', Obj [(''task_status'', Str ''SUCCEEDED'')])])"
        "Obj [(''output'', Obj [(''task_status'', Str ''SUCCEEDED'')])]" example_config]
  by (simp add: isValidTaskIdArgs_def example_env_def task_status_of_def member_def)

subsection \<open>C7: the submission of \<open>generateImage\<close>\<close>

lemma floor_random:
  assumes "0 \<le> (r::rat)" and "r < 1"
  shows "0 \<le> \<lfloor>r * 1000\<rfloor> \<and> \<lfloor>r * 1000\<rfloor> < 1000"
proof -
  from assms have "0 \<le> r * 1000" and "r * 1000 < 1000" by simp_all
  then show ?thesis by (simp add: floor_less_iff)
qed

text \<open>
  C7 says that \<open>size\<close> and \<open>steps\<close> are the caller's whenever they are present. The
  program writes \<open>args.size || "1024*1024"\<close> and \<open>args.steps || 4\<close>, so a present but
  falsy value is replaced too: with \<open>size: ""\<close> and \<open>steps: 0\<close> the submission carries
  \<open>1024*1024\<close> and \<open>4\<close>.
\<close>

theorem generateImage_falsy_counterexample:
  "snd (generateImage example_config (example_env Null)
          (Obj [(''prompt'', Str ''a cat''), (''size'', Str []), (''steps'', Num 0)])) =
     [ApiPost generation_endpoint
        (Obj [(''model'', Str ''flux-merged''),
              (''input'', Obj [(''prompt'', Str ''a cat'')]),
              (''parameters'',
                 Obj [(''size'', Str ''1024*1024''), (''seed'', Num 500),
                      (''steps'', Num 4)])])]"
  by (simp add: generateImage_def generation_body_def isValidGenerateImageArgs_def
        example_env_def example_config_def)

text \<open>
  C7, amended: for every accepted \<open>generate_image\<close> request the effects are exactly one
  submission to the generation endpoint (so nothing touches the file system), whose
  parameters are: \<open>size\<close>, the caller's when present and not the empty string, else
  \<open>1024*1024\<close>; \<open>seed\<close>, the caller's when present, else an integer in \<open>[0, 1000)\<close>
  (given that \<open>Math.random()\<close> is in \<open>[0, 1)\<close>); \<open>steps\<close>, the caller's when present
  and not zero, else \<open>4\<close>.
\<close>

theorem generateImage_submission:
  assumes "isValidGenerateImageArgs args"
    and "0 \<le> math_random E" and "math_random E < 1"
  shows "\<exists>size seed steps.
           snd (generateImage C E args) =
             [ApiPost generation_endpoint
                (Obj [(''model'', Str (MODEL_NAME C)),
                      (''input'', Obj [(''prompt'', getprop args ''prompt'')]),
                      (''parameters'',
                         Obj [(''size'', size), (''seed'', seed), (''steps'', steps)])])] \<and>
           size = (if getprop args ''size'' = Undefined \<or> getprop args ''size'' = Str []
                   then Str ''1024*1024'' else getprop args ''size'') \<and>
           (if getprop args ''seed'' = Undefined
            then \<exists>k. seed = Num (of_int k) \<and> 0 \<le> k \<and> k < 1000
            else seed = getprop args ''seed'') \<and>
           steps = (if getprop args ''steps'' = Undefined \<or> getprop args ''steps'' = Num 0
                    then Num 4 else getprop args ''steps'')"
proof -
  have size: "truthy (getprop args ''size'') \<longleftrightarrow>
      \<not> (getprop args ''size'' = Undefined \<or> getprop args ''size'' = Str [])"
    using assms(1) by (cases "getprop args ''size''") (auto simp: isValidGenerateImageArgs_def)
  have steps: "truthy (getprop args ''steps'') \<longleftrightarrow>
      \<not> (getprop args ''steps'' = Undefined \<or> getprop args ''steps'' = Num 0)"
    using assms(1) by (cases "getprop args ''steps''") (auto simp: isValidGenerateImageArgs_def)
  show ?thesis
    using assms floor_random [OF assms(2,3)] size steps
    by (auto simp: generateImage_def generation_body_def Let_def)
qed

text \<open>
  Witness for C7: a request with \<open>size\<close>, \<open>seed: 0\<close> and \<open>steps\<close> given; the seed
  \<open>0\<close> is kept.
\<close>

theorem generateImage_submission_witness:
  "isValidGenerateImageArgs
     (Obj [(''prompt'', Str ''a cat''), (''size'', Str ''720*1280''), (''seed'', Num 0),
           (''steps'', Num 8)]) \<and>
   0 \<le> math_random (example_env Null) \<and> math_random (example_env Null) < 1 \<and>
   snd (generateImage example_config (example_env Null)
          (Obj [(''prompt'', Str ''a cat''), (''size'', Str ''720*1280''), (''seed'', Num 0),
                (''steps'', Num 8)])) =
     [ApiPost generation_endpoint
        (Obj [(''model'', Str ''flux-merged''),
              (''input'', Obj [(''prompt'', Str ''a cat'')]),
              (''parameters'',
                 Obj [(''size'', Str ''720*1280''), (''seed'', Num 0), (''steps'', Num 8)])])]"
  using generateImage_submission
    [of "Obj [(''prompt'', Str ''a cat''), (''size'', Str ''720*1280''), (''seed'', Num 0),
              (''steps'', Num 8)]" "example_env Null" example_config]
  by (simp add: isValidGenerateImageArgs_def example_env_def example_config_def)

subsection \<open>The shape of a run of \<open>downloadImage\<close>\<close>

lemma written_paths_append: "written_paths (xs @ ys) = written_paths xs @ written_paths ys"
  by (induction xs rule: written_paths.induct) auto

lemma loop_written_paths:
  "written_paths (snd (download_loop E d t c i urls)) =
     map (\<lambda>j. path_join d (filename_of t c j))
       [i ..< i + length (written_paths (snd (download_loop E d t c i urls)))]"
proof (induction urls arbitrary: i)
  case Nil
  then show ?case by simp
next
  case (Cons url urls)
  show ?case
  proof (cases "axios_get E url")
    case (Inl error)
    then show ?thesis by simp
  next
    case (Inr data)
    show ?thesis
    proof (cases "writeFile E (path_join d (filename_of t c i)) data")
      case (Some msg)
      with Inr show ?thesis by (simp add: upt_rec Let_def)
    next
      case None
      obtain r effs where loop: "download_loop E d t c (Suc i) urls = (r, effs)"
        by (cases "download_loop E d t c (Suc i) urls")
      from Cons.IH [of "Suc i"] loop
      have IH: "written_paths effs = map (\<lambda>j. path_join d (filename_of t c j)) [Suc i ..< Suc i + length (written_paths effs)]"
        by simp
      have "written_paths (snd (download_loop E d t c i (url # urls))) =
              path_join d (filename_of t c i) # written_paths effs"
        using Inr None loop by (cases r) (simp_all add: Let_def)
      moreover have "[i ..< i + Suc (length (written_paths effs))] = i # [Suc i ..< Suc i + length (written_paths effs)]"
        by (simp add: upt_rec)
      ultimately show ?thesis using IH by simp
    qed
  qed
qed

lemma probed_paths_append: "probed_paths (xs @ ys) = probed_paths xs @ probed_paths ys"
  by (induction xs rule: probed_paths.induct) auto
lemma created_dirs_append: "created_dirs (xs @ ys) = created_dirs xs @ created_dirs ys"
  by (induction xs rule: created_dirs.induct) auto
lemma artifact_fetches_append: "artifact_fetches (xs @ ys) = artifact_fetches xs @ artifact_fetches ys"
  by (induction xs rule: artifact_fetches.induct) auto
lemma io_effects_append: "io_effects (xs @ ys) = io_effects xs @ io_effects ys"
  by (induction xs rule: io_effects.induct) auto

lemma loop_no_dir_effects:
  "probed_paths (snd (download_loop E d t c i urls)) = [] \<and>
   created_dirs (snd (download_loop E d t c i urls)) = []"
proof (induction urls arbitrary: i)
  case Nil
  then show ?case by simp
next
  case (Cons url urls)
  obtain r effs where loop: "download_loop E d t c (Suc i) urls = (r, effs)"
    by (cases "download_loop E d t c (Suc i) urls")
  with Cons.IH [of "Suc i"] have "probed_paths effs = []" and "created_dirs effs = []"
    by simp_all
  with loop show ?case
    by (auto simp: Let_def split: sum.splits option.splits)
qed

lemma downloadImage_shape:
  "snd (downloadImage C E args) = [] \<or>
   snd (downloadImage C E args) = [ApiGet (''/tasks/'' @ the_Str (getprop args ''task_id''))] \<or>
   (\<exists>t f urls. isValidTaskIdArgs args \<and> urls \<noteq> [] \<and>
      resolve_target C (getprop args ''save_path'') = Inr (t, f) \<and>
      downloadImage C E args =
        (fst (save_all E (the_Str (getprop args ''task_id'')) (baseDir_of C args) t f urls),
         ApiGet (''/tasks/'' @ the_Str (getprop args ''task_id'')) #
         snd (save_all E (the_Str (getprop args ''task_id'')) (baseDir_of C args) t f urls)))"
  by (auto simp: downloadImage_def Let_def split: sum.splits prod.splits)

lemma downloadImage_reaches_save:
  assumes "isValidTaskIdArgs args"
    and "api_get E (''/tasks/'' @ the_Str (getprop args ''task_id'')) = Inr statusData"
    and "task_status_of statusData = Inr (Str ''SUCCEEDED'')"
    and "imageUrls_of statusData = Inr (url # urls)"
    and "resolve_target C (getprop args ''save_path'') = Inr (t, f)"
  shows "downloadImage C E args =
        (fst (save_all E (the_Str (getprop args ''task_id'')) (baseDir_of C args) t f (url # urls)),
         ApiGet (''/tasks/'' @ the_Str (getprop args ''task_id'')) #
         snd (save_all E (the_Str (getprop args ''task_id'')) (baseDir_of C args) t f (url # urls)))"
  using assms by (simp add: downloadImage_def Let_def split: prod.splits)

lemma save_all_shape:
  "(\<exists>msg. \<not> existsSync E (absoluteTargetDir_of b t) \<and>
      mkdirSync E (absoluteTargetDir_of b t) = Some msg \<and>
      save_all E tid b t f urls =
        (Returned \<lparr>text_of = ''Failed to create directory: '' @ msg, isError = True\<rparr>,
         [ConsoleError (resolving_message t b (absoluteTargetDir_of b t)),
          ExistsSync (absoluteTargetDir_of b t), MkdirSync (absoluteTargetDir_of b t) True])) \<or>
   ((existsSync E (absoluteTargetDir_of b t) \<or> mkdirSync E (absoluteTargetDir_of b t) = None) \<and>
    save_all E tid b t f urls =
      (finish_download E tid (fst (download_loop E (absoluteTargetDir_of b t) tid f 0 urls)),
       [ConsoleError (resolving_message t b (absoluteTargetDir_of b t)),
        ExistsSync (absoluteTargetDir_of b t)] @
       (if existsSync E (absoluteTargetDir_of b t) then []
        else [MkdirSync (absoluteTargetDir_of b t) True]) @
       snd (download_loop E (absoluteTargetDir_of b t) tid f 0 urls)))"
  by (auto simp: save_all_def Let_def split: option.splits prod.splits)

lemma finish_download_not_failed:
  "finish_download E tid r \<noteq>
     Returned \<lparr>text_of = ''Failed to create directory: '' @ msg, isError = True\<rparr>"
proof (cases r)
  case (Inl error)
  then show ?thesis by (cases error) (simp_all add: finish_download_def)
next
  case (Inr rs)
  then show ?thesis by (simp add: finish_download_def)
qed

lemma run_uses_resolution:
  "(probed_paths (snd (downloadImage C E args)) = [] \<and>
    written_paths (snd (downloadImage C E args)) = []) \<or>
   (\<exists>t f. resolve_target C (getprop args ''save_path'') = Inr (t, f) \<and>
      probed_paths (snd (downloadImage C E args)) =
        [absoluteTargetDir_of (baseDir_of C args) t] \<and>
      written_paths (snd (downloadImage C E args)) =
        map (\<lambda>j. path_join (absoluteTargetDir_of (baseDir_of C args) t)
                   (filename_of (the_Str (getprop args ''task_id'')) f j))
          [0 ..< length (written_paths (snd (downloadImage C E args)))])"
proof -
  let ?tid = "the_Str (getprop args ''task_id'')"
  let ?b = "baseDir_of C args"
  consider "snd (downloadImage C E args) = []"
    | "snd (downloadImage C E args) = [ApiGet (''/tasks/'' @ ?tid)]"
    | t f urls where "resolve_target C (getprop args ''save_path'') = Inr (t, f)"
        "downloadImage C E args =
          (fst (save_all E ?tid ?b t f urls), ApiGet (''/tasks/'' @ ?tid) # snd (save_all E ?tid ?b t f urls))"
    using downloadImage_shape [of C E args] by blast
  then show ?thesis
  proof cases
    case 1
    then show ?thesis by simp
  next
    case 2
    then show ?thesis by simp
  next
    case 3
    let ?d = "absoluteTargetDir_of ?b t"
    let ?loop = "snd (download_loop E ?d ?tid f 0 urls)"
    have wl: "written_paths ?loop =
        map (\<lambda>j. path_join ?d (filename_of ?tid f j)) [0 ..< length (written_paths ?loop)]"
      using loop_written_paths [of E ?d ?tid f 0 urls] by simp
    from save_all_shape [of E ?b t ?tid f urls]
    have "probed_paths (snd (save_all E ?tid ?b t f urls)) = [?d] \<and>
          (written_paths (snd (save_all E ?tid ?b t f urls)) = [] \<or>
           written_paths (snd (save_all E ?tid ?b t f urls)) = written_paths ?loop)"
      using loop_no_dir_effects [of E ?d ?tid f 0 urls]
      by (auto simp: probed_paths_append written_paths_append split: if_splits)
    with 3 wl show ?thesis by auto
  qed
qed

subsection \<open>C4: the names of the artifacts of one batch\<close>

lemma default_name_inj: "default_name t i = default_name t j \<Longrightarrow> i = j"
  by (simp add: default_name_def string_of_nat_inj)

lemma distinct_default_names: "distinct (map (default_name t) [m..<n])"
  by (simp add: distinct_map inj_on_def) (metis default_name_inj)

lemma filename_of_pos: "0 < i \<Longrightarrow> filename_of t c i = default_name t i"
  by (simp add: filename_of_def split: option.splits)

text \<open>
  C4 says that the names of one batch are pairwise distinct for every task id and every
  override that validation accepts. The override is the base name of any absolute
  \<open>save_path\<close> with an extension, so it can be a default name of a later index: for
  task \<open>t\<close> and \<open>save_path = "/tmp/t_1.png"\<close>, which validation accepts, artifact
  \<open>0\<close> and artifact \<open>1\<close> are both named \<open>t_1.png\<close>, in the same directory.
\<close>

theorem filename_collision_counterexample:
  "isValidTaskIdArgs (Obj [(''task_id'', Str ''t''), (''save_path'', Str ''/tmp/t_1.png'')]) \<and>
   resolve_target example_config (Str ''/tmp/t_1.png'') = Inr (''/tmp'', Some ''t_1.png'') \<and>
   filename_of ''t'' (Some ''t_1.png'') 0 = ''t_1.png'' \<and>
   filename_of ''t'' (Some ''t_1.png'') 1 = ''t_1.png''"
  by code_simp

text \<open>
  C4, amended: in every batch the override, when there is one, names artifact \<open>0\<close>
  only, and every other index \<open>i\<close> has the name \<open>{task_id}_{i}.png\<close>; the names of
  the indices from \<open>1\<close> on are pairwise distinct; and all \<open>n\<close> names are pairwise
  distinct whenever the override is not itself \<open>{task_id}_{i}.png\<close> for an index
  \<open>1 \<le> i < n\<close> of the batch. This holds for every task id, every override and
  every \<open>n\<close>.
\<close>

theorem filenames_distinct_unless_override_collides:
  "(\<forall>i. 0 < i \<longrightarrow> filename_of task_id customFilename i = default_name task_id i) \<and>
   filename_of task_id customFilename 0 =
     (case customFilename of
        None \<Rightarrow> default_name task_id 0
      | Some f \<Rightarrow> if f \<noteq> [] then f else default_name task_id 0) \<and>
   distinct (map (filename_of task_id customFilename) [1..<n]) \<and>
   ((\<forall>i\<in>{1..<n}. customFilename \<noteq> Some (default_name task_id i)) \<longrightarrow>
      distinct (map (filename_of task_id customFilename) [0..<n]))"
proof (intro conjI impI)
  show "\<forall>i. 0 < i \<longrightarrow> filename_of task_id customFilename i = default_name task_id i"
    by (simp add: filename_of_pos)
  show "filename_of task_id customFilename 0 =
     (case customFilename of
        None \<Rightarrow> default_name task_id 0
      | Some f \<Rightarrow> if f \<noteq> [] then f else default_name task_id 0)"
    by (simp add: filename_of_def split: option.splits)
  have tail: "map (filename_of task_id customFilename) [1..<n] = map (default_name task_id) [1..<n]"
    by (simp add: filename_of_pos)
  show tl: "distinct (map (filename_of task_id customFilename) [1..<n])"
    unfolding tail by (rule distinct_default_names)
  assume free: "\<forall>i\<in>{1..<n}. customFilename \<noteq> Some (default_name task_id i)"
  show "distinct (map (filename_of task_id customFilename) [0..<n])"
  proof (cases n)
    case 0
    then show ?thesis by simp
  next
    case (Suc k)
    have split: "[0..<n] = 0 # [1..<n]" using Suc by (simp add: upt_rec)
    have "filename_of task_id customFilename 0 \<notin> default_name task_id ` {1..<n}"
    proof
      assume "filename_of task_id customFilename 0 \<in> default_name task_id ` {1..<n}"
      then obtain i where i: "i \<in> {1..<n}" "filename_of task_id customFilename 0 = default_name task_id i"
        by auto
      show False
      proof (cases customFilename)
        case None
        with i have "default_name task_id 0 = default_name task_id i" by (simp add: filename_of_def)
        then have "0 = i" by (rule default_name_inj)
        with i show False by simp
      next
        case (Some f)
        show False
        proof (cases "f = []")
          case True
          with Some i have "default_name task_id 0 = default_name task_id i" by (simp add: filename_of_def)
          then have "0 = i" by (rule default_name_inj)
          with i show False by simp
        next
          case False
          with Some i have "customFilename = Some (default_name task_id i)" by (simp add: filename_of_def)
          with free i show False by blast
        qed
      qed
    qed
    moreover have "map (filename_of task_id customFilename) [0..<n] =
        filename_of task_id customFilename 0 # map (default_name task_id) [1..<n]"
      using split tail by simp
    ultimately show ?thesis using distinct_default_names [of task_id 1 n] by simp
  qed
qed

text \<open>Witness for C4: three artifacts of task \<open>t\<close> with the override \<open>pic.png\<close>.\<close>

theorem filenames_distinct_unless_override_collides_witness:
  "distinct (map (filename_of ''t'' (Some ''pic.png'')) [0..<3])"
  using filenames_distinct_unless_override_collides [of "''t''" "Some ''pic.png''" 3]
  by (simp add: default_name_def)

subsection \<open>C5: \<open>save_path = "/tmp/out/pic.png"\<close>\<close>

lemma parse_pic: "path_parse ''/tmp/out/pic.png'' =
    \<lparr>root = ''/'', dir = ''/tmp/out'', base = ''pic.png'', ext = ''.png'', name = ''pic''\<rparr>"
  by code_simp

lemma dirname_pic: "path_dirname ''/tmp/out/pic.png'' = ''/tmp/out''"
  by code_simp

lemma resolve_pic: "resolve_target C (Str ''/tmp/out/pic.png'') = Inr (''/tmp/out'', Some ''pic.png'')"
  by (simp add: resolve_target_def parse_pic dirname_pic)

lemma join_pic: "path_join ''/tmp/out'' ''pic.png'' = ''/tmp/out/pic.png''"
  by code_simp

lemma default_name_plain:
  assumes "CHR ''/'' \<notin> set tid"
  shows "path_join ''/tmp/out'' (default_name tid j) = ''/tmp/out/'' @ default_name tid j"
proof (rule path_join_plain)
  show "CHR ''/'' \<notin> set (default_name tid j)"
    using assms string_of_nat_no_slash [of j] by (simp add: default_name_def)
  have "5 \<le> length (default_name tid j)" by (simp add: default_name_def)
  then show "default_name tid j \<noteq> []" "default_name tid j \<noteq> ''.''" "default_name tid j \<noteq> ''..''"
    by auto
qed

text \<open>
  C5 says that artifact \<open>1\<close> lands in the same directory \<open>/tmp/out\<close>, for every
  accepted call. The task id is checked for being a string only, and the path written
  is \<open>path.join(targetDir, filename)\<close>, which normalises: for the task id \<open>../x\<close>
  artifact \<open>1\<close> is written to \<open>/tmp/x_1.png\<close>, outside \<open>/tmp/out\<close>.
\<close>

theorem task_id_traversal_counterexample:
  "isValidTaskIdArgs (Obj [(''task_id'', Str ''../x''), (''save_path'', Str ''/tmp/out/pic.png'')]) \<and>
   written_paths (snd (downloadImage example_config (example_env two_artifacts)
       (Obj [(''task_id'', Str ''../x''), (''save_path'', Str ''/tmp/out/pic.png'')])))
   = [''/tmp/out/pic.png'', ''/tmp/x_1.png'']"
  by code_simp

text \<open>
  C5, amended: for every accepted call with \<open>save_path = "/tmp/out/pic.png"\<close>, the
  target directory is \<open>/tmp/out\<close> with the override \<open>pic.png\<close>; the only directory
  probed is \<open>/tmp/out\<close>; the first file written is \<open>/tmp/out/pic.png\<close> and the
  file written for artifact \<open>j \<ge> 1\<close> is
  \<open>path.join("/tmp/out", "{task_id}_{j}.png")\<close>, which is
  \<open>/tmp/out/{task_id}_{j}.png\<close>, in the same directory, whenever the task id
  contains no slash.
\<close>

theorem absolute_file_path_destination:
  assumes "isValidTaskIdArgs args"
    and "getprop args ''save_path'' = Str ''/tmp/out/pic.png''"
    and "getprop args ''task_id'' = Str tid"
  shows "resolve_target C (getprop args ''save_path'') = Inr (''/tmp/out'', Some ''pic.png'') \<and>
    (probed_paths (snd (downloadImage C E args)) = [] \<or>
     probed_paths (snd (downloadImage C E args)) = [''/tmp/out'']) \<and>
    written_paths (snd (downloadImage C E args)) =
      map (\<lambda>j. if j = 0 then ''/tmp/out/pic.png''
                else path_join ''/tmp/out'' (tid @ ''_'' @ string_of_nat j @ ''.png''))
        [0 ..< length (written_paths (snd (downloadImage C E args)))] \<and>
    (CHR ''/'' \<notin> set tid \<longrightarrow>
       written_paths (snd (downloadImage C E args)) =
         map (\<lambda>j. if j = 0 then ''/tmp/out/pic.png''
                   else ''/tmp/out/'' @ tid @ ''_'' @ string_of_nat j @ ''.png'')
           [0 ..< length (written_paths (snd (downloadImage C E args)))])"
proof -
  let ?effs = "snd (downloadImage C E args)"
  have res: "resolve_target C (getprop args ''save_path'') = Inr (''/tmp/out'', Some ''pic.png'')"
    using assms(2) resolve_pic by simp
  have abs: "absoluteTargetDir_of b ''/tmp/out'' = ''/tmp/out''" for b
    by (simp add: absoluteTargetDir_of_def)
  have name: "path_join ''/tmp/out'' (filename_of tid (Some ''pic.png'') j) =
      (if j = 0 then ''/tmp/out/pic.png''
       else path_join ''/tmp/out'' (tid @ ''_'' @ string_of_nat j @ ''.png''))" for j
    by (simp add: filename_of_def join_pic default_name_def)
  from run_uses_resolution [of C E args] res abs assms(3)
  have probed: "probed_paths ?effs = [] \<or> probed_paths ?effs = [''/tmp/out'']"
    and written: "written_paths ?effs =
      map (\<lambda>j. path_join ''/tmp/out'' (filename_of tid (Some ''pic.png'') j))
        [0 ..< length (written_paths ?effs)]"
    by auto
  have w1: "written_paths ?effs =
      map (\<lambda>j. if j = 0 then ''/tmp/out/pic.png''
                else path_join ''/tmp/out'' (tid @ ''_'' @ string_of_nat j @ ''.png''))
        [0 ..< length (written_paths ?effs)]"
    using written unfolding name .
  have w2: "written_paths ?effs =
         map (\<lambda>j. if j = 0 then ''/tmp/out/pic.png''
                   else ''/tmp/out/'' @ tid @ ''_'' @ string_of_nat j @ ''.png'')
           [0 ..< length (written_paths ?effs)]"
    if "CHR ''/'' \<notin> set tid"
  proof -
    have eq: "path_join ''/tmp/out'' (tid @ ''_'' @ string_of_nat j @ ''.png'') =
        ''/tmp/out/'' @ tid @ ''_'' @ string_of_nat j @ ''.png''" for j
      using default_name_plain [OF that, of j] by (simp add: default_name_def)
    show ?thesis using w1 unfolding eq .
  qed
  from res probed w1 w2 show ?thesis by blast
qed

text \<open>Witness for C5: task \<open>t5\<close> with two artifacts, everything succeeding.\<close>

theorem absolute_file_path_destination_witness:
  "isValidTaskIdArgs (Obj [(''task_id'', Str ''t5''), (''save_path'', Str ''/tmp/out/pic.png'')]) \<and>
   CHR ''/'' \<notin> set ''t5'' \<and>
   written_paths (snd (downloadImage example_config (example_env two_artifacts)
       (Obj [(''task_id'', Str ''t5''), (''save_path'', Str ''/tmp/out/pic.png'')])))
   = [''/tmp/out/pic.png'', ''/tmp/out/t5_1.png'']"
proof -
  let ?args = "Obj [(''task_id'', Str ''t5''), (''save_path'', Str ''/tmp/out/pic.png'')]"
  let ?effs = "snd (downloadImage example_config (example_env two_artifacts) ?args)"
  have valid: "isValidTaskIdArgs ?args" by (simp add: isValidTaskIdArgs_def)
  have noslash: "CHR ''/'' \<notin> set ''t5''" by simp
  have two: "length (written_paths ?effs) = 2" by code_simp
  have upt: "[0..<2] = [0, Suc 0]" by (simp add: upt_rec)
  have one: "string_of_nat (Suc 0) = ''1''" by code_simp
  from absolute_file_path_destination [OF valid, of "''t5''" example_config "example_env two_artifacts"]
    noslash
  have "written_paths ?effs =
      map (\<lambda>j. if j = 0 then ''/tmp/out/pic.png''
                else ''/tmp/out/'' @ ''t5'' @ ''_'' @ string_of_nat j @ ''.png'')
        [0 ..< length (written_paths ?effs)]"
    by simp
  then have "written_paths ?effs =
      map (\<lambda>j. if j = 0 then ''/tmp/out/pic.png''
                else ''/tmp/out/'' @ ''t5'' @ ''_'' @ string_of_nat j @ ''.png'') [0, Suc 0]"
    unfolding two upt .
  with valid noslash one show ?thesis by simp
qed

subsection \<open>C6: the directory before the fetches\<close>

text \<open>
  C6 says that in every retrieval the directory is created before any artifact is
  fetched, and that fetching before the directory is ready cannot happen. The program
  creates the directory only when \<open>fs.existsSync\<close> finds nothing at its path: with a
  regular file at \<open>/tmp/out\<close> and \<open>save_path = "/tmp/out"\<close>, nothing is created,
  the first artifact is fetched all the same, and the run ends with the error of the
  write.
\<close>

theorem existing_file_counterexample:
  "fs_entries (blocked_env two_artifacts) ''/tmp/out'' = Some RegularFile \<and>
   downloadImage example_config (blocked_env two_artifacts)
     (Obj [(''task_id'', Str ''t6''), (''save_path'', Str ''/tmp/out'')])
   = (Thrown (SystemError ''ENOTDIR: not a directory, open''),
      [ApiGet ''/tasks/t6'',
       ConsoleError ''Resolving path: /tmp/out against base: /srv/work => /tmp/out'',
       ExistsSync ''/tmp/out'',
       AxiosGet (Str ''https://host/a.png''),
       WriteFile ''/tmp/out/t6_0.png'' ''PNG''])"
  by code_simp

text \<open>
  C6, amended. Let \<open>d\<close> be the resolved absolute directory of the call, that is
  \<open>absoluteTargetDir_of (baseDir_of C args) t\<close> for the target directory \<open>t\<close> and the
  override \<open>f\<close> that the save-path block gives. In every run of \<open>downloadImage\<close>:
  \<^item> when an artifact is fetched at all, the effects split into a first part without
    any fetch or write and a second part without any probe or creation of a directory;
    in the first part \<open>d\<close> is the one directory probed, and either something exists at
    \<open>d\<close> and nothing is created, or \<open>d\<close> is created with \<open>recursive: true\<close> (so with
    its missing ancestors) and the creation succeeded; and every file written in the
    second part is written to \<open>path.join(d, name)\<close>, \<open>name\<close> being the name of the
    artifact under \<open>f\<close>;
  \<^item> the only directory a run ever creates is \<open>d\<close>, recursively;
  \<^item> when the creation of a directory is tried and fails with message \<open>msg\<close>, the
    result is the error-flagged \<open>Failed to create directory: msg\<close> and no artifact is
    fetched.
\<close>

theorem directory_settled_before_fetch:
  "(artifact_fetches (snd (downloadImage C E args)) \<noteq> [] \<longrightarrow>
      (\<exists>t f pre post.
         resolve_target C (getprop args ''save_path'') = Inr (t, f) \<and>
         snd (downloadImage C E args) = pre @ post \<and>
         artifact_fetches pre = [] \<and> written_paths pre = [] \<and>
         probed_paths post = [] \<and> created_dirs post = [] \<and>
         probed_paths pre = [absoluteTargetDir_of (baseDir_of C args) t] \<and>
         (if existsSync E (absoluteTargetDir_of (baseDir_of C args) t)
          then created_dirs pre = []
          else created_dirs pre = [(absoluteTargetDir_of (baseDir_of C args) t, True)] \<and>
               mkdirSync E (absoluteTargetDir_of (baseDir_of C args) t) = None) \<and>
         written_paths post =
           map (\<lambda>j. path_join (absoluteTargetDir_of (baseDir_of C args) t)
                      (filename_of (the_Str (getprop args ''task_id'')) f j))
             [0 ..< length (written_paths post)])) \<and>
   (created_dirs (snd (downloadImage C E args)) = [] \<or>
    (\<exists>t f. resolve_target C (getprop args ''save_path'') = Inr (t, f) \<and>
       created_dirs (snd (downloadImage C E args)) =
         [(absoluteTargetDir_of (baseDir_of C args) t, True)])) \<and>
   (\<forall>d recursive msg.
      (d, recursive) \<in> set (created_dirs (snd (downloadImage C E args))) \<and>
      mkdirSync E d = Some msg \<longrightarrow>
      fst (downloadImage C E args) =
        Returned \<lparr>text_of = ''Failed to create directory: '' @ msg, isError = True\<rparr> \<and>
      artifact_fetches (snd (downloadImage C E args)) = [])"
proof -
  let ?tid = "the_Str (getprop args ''task_id'')"
  let ?b = "baseDir_of C args"
  consider "snd (downloadImage C E args) = []"
    | "snd (downloadImage C E args) = [ApiGet (''/tasks/'' @ ?tid)]"
    | t f urls where
        "resolve_target C (getprop args ''save_path'') = Inr (t, f)"
        "downloadImage C E args =
          (fst (save_all E ?tid ?b t f urls),
           ApiGet (''/tasks/'' @ ?tid) # snd (save_all E ?tid ?b t f urls))"
    using downloadImage_shape [of C E args] by blast
  then show ?thesis
  proof cases
    case 1
    then show ?thesis by simp
  next
    case 2
    then show ?thesis by simp
  next
    case 3
    let ?d = "absoluteTargetDir_of ?b t"
    let ?log = "ConsoleError (resolving_message t ?b ?d)"
    let ?loop = "snd (download_loop E ?d ?tid f 0 urls)"
    from save_all_shape [of E ?b t ?tid f urls]
    consider msg where "\<not> existsSync E ?d" "mkdirSync E ?d = Some msg"
        "save_all E ?tid ?b t f urls =
          (Returned \<lparr>text_of = ''Failed to create directory: '' @ msg, isError = True\<rparr>,
           [?log, ExistsSync ?d, MkdirSync ?d True])"
      | "existsSync E ?d \<or> mkdirSync E ?d = None"
        "snd (save_all E ?tid ?b t f urls) =
           [?log, ExistsSync ?d] @ (if existsSync E ?d then [] else [MkdirSync ?d True]) @ ?loop"
      by auto
    then show ?thesis
    proof cases
      case 1
      have effs: "snd (downloadImage C E args) =
          [ApiGet (''/tasks/'' @ ?tid), ?log, ExistsSync ?d, MkdirSync ?d True]"
        and res: "fst (downloadImage C E args) =
          Returned \<lparr>text_of = ''Failed to create directory: '' @ msg, isError = True\<rparr>"
        using 3(2) 1(3) by simp_all
      have first: "artifact_fetches (snd (downloadImage C E args)) = []"
        unfolding effs by simp
      have dirs: "created_dirs (snd (downloadImage C E args)) = [(?d, True)]"
        unfolding effs by simp
      have second: "\<exists>t f. resolve_target C (getprop args ''save_path'') = Inr (t, f) \<and>
          created_dirs (snd (downloadImage C E args)) =
            [(absoluteTargetDir_of (baseDir_of C args) t, True)]"
        using 3(1) dirs by blast
      have third: "fst (downloadImage C E args) =
            Returned \<lparr>text_of = ''Failed to create directory: '' @ m, isError = True\<rparr> \<and>
          artifact_fetches (snd (downloadImage C E args)) = []"
        if "(d, r) \<in> set (created_dirs (snd (downloadImage C E args)))" "mkdirSync E d = Some m"
        for d r m
        using that 1(2) res first unfolding dirs by simp
      from first second third show ?thesis by blast
    next
      case 2
      let ?pre = "ApiGet (''/tasks/'' @ ?tid) # [?log, ExistsSync ?d] @
                    (if existsSync E ?d then [] else [MkdirSync ?d True])"
      have effs: "snd (downloadImage C E args) = ?pre @ ?loop"
        using 3(2) 2(2) by simp
      have pre: "artifact_fetches ?pre = []" "written_paths ?pre = []"
        "probed_paths ?pre = [?d]"
        "if existsSync E ?d then created_dirs ?pre = []
         else created_dirs ?pre = [(?d, True)] \<and> mkdirSync E ?d = None"
        using 2(1) by auto
      have post: "probed_paths ?loop = []" "created_dirs ?loop = []"
        using loop_no_dir_effects [of E ?d ?tid f 0 urls] by simp_all
      have wl: "written_paths ?loop =
          map (\<lambda>j. path_join ?d (filename_of ?tid f j)) [0 ..< length (written_paths ?loop)]"
        using loop_written_paths [of E ?d ?tid f 0 urls] by simp
      have first: "\<exists>t f pre post.
         resolve_target C (getprop args ''save_path'') = Inr (t, f) \<and>
         snd (downloadImage C E args) = pre @ post \<and>
         artifact_fetches pre = [] \<and> written_paths pre = [] \<and>
         probed_paths post = [] \<and> created_dirs post = [] \<and>
         probed_paths pre = [absoluteTargetDir_of (baseDir_of C args) t] \<and>
         (if existsSync E (absoluteTargetDir_of (baseDir_of C args) t)
          then created_dirs pre = []
          else created_dirs pre = [(absoluteTargetDir_of (baseDir_of C args) t, True)] \<and>
               mkdirSync E (absoluteTargetDir_of (baseDir_of C args) t) = None) \<and>
         written_paths post =
           map (\<lambda>j. path_join (absoluteTargetDir_of (baseDir_of C args) t)
                      (filename_of (the_Str (getprop args ''task_id'')) f j))
             [0 ..< length (written_paths post)]"
        using 3(1) effs pre post wl by blast
      have dirs: "created_dirs (snd (downloadImage C E args)) =
          (if existsSync E ?d then [] else [(?d, True)])"
        unfolding effs using post by (simp add: created_dirs_append)
      have second: "created_dirs (snd (downloadImage C E args)) = [] \<or>
          (\<exists>t f. resolve_target C (getprop args ''save_path'') = Inr (t, f) \<and>
             created_dirs (snd (downloadImage C E args)) =
               [(absoluteTargetDir_of (baseDir_of C args) t, True)])"
        using 3(1) dirs by (cases "existsSync E ?d") auto
      have third: "\<And>d r m. (d, r) \<in> set (created_dirs (snd (downloadImage C E args))) \<Longrightarrow>
          mkdirSync E d \<noteq> Some m"
        using 2(1) dirs by (auto split: if_splits)
      from first second third show ?thesis by blast
    qed
  qed
qed

text \<open>Witness for C6: nothing exists at \<open>/tmp/out\<close> and it cannot be created.\<close>

theorem directory_settled_before_fetch_witness:
  "created_dirs (snd (downloadImage example_config (readonly_env two_artifacts)
      (Obj [(''task_id'', Str ''t6''), (''save_path'', Str ''/tmp/out'')]))) =
     [(''/tmp/out'', True)] \<and>
   mkdirSync (readonly_env two_artifacts) ''/tmp/out'' = Some ''EACCES: permission denied, mkdir'' \<and>
   fst (downloadImage example_config (readonly_env two_artifacts)
      (Obj [(''task_id'', Str ''t6''), (''save_path'', Str ''/tmp/out'')])) =
     Returned \<lparr>text_of = ''Failed to create directory: EACCES: permission denied, mkdir'',
               isError = True\<rparr> \<and>
   artifact_fetches (snd (downloadImage example_config (readonly_env two_artifacts)
      (Obj [(''task_id'', Str ''t6''), (''save_path'', Str ''/tmp/out'')]))) = []"
proof -
  let ?run = "downloadImage example_config (readonly_env two_artifacts)
      (Obj [(''task_id'', Str ''t6''), (''save_path'', Str ''/tmp/out'')])"
  have dirs: "created_dirs (snd ?run) = [(''/tmp/out'', True)]" by code_simp
  have fails: "mkdirSync (readonly_env two_artifacts) ''/tmp/out'' =
      Some ''EACCES: permission denied, mkdir''"
    by (simp add: readonly_env_def example_env_def)
  from directory_settled_before_fetch [of example_config "readonly_env two_artifacts"
      "Obj [(''task_id'', Str ''t6''), (''save_path'', Str ''/tmp/out'')]"]
  have "\<forall>d recursive msg. (d, recursive) \<in> set (created_dirs (snd ?run)) \<and>
          mkdirSync (readonly_env two_artifacts) d = Some msg \<longrightarrow>
        fst ?run = Returned \<lparr>text_of = ''Failed to create directory: '' @ msg, isError = True\<rparr> \<and>
        artifact_fetches (snd ?run) = []"
    by blast
  with dirs fails show ?thesis by auto
qed

subsection \<open>C8: destination resolution is deterministic\<close>

lemma resolve_target_config:
  "SAVE_DIR C1 = SAVE_DIR C2 \<Longrightarrow> resolve_target C1 v = resolve_target C2 v"
  by (simp add: resolve_target_def)

text \<open>
  C8: two calls of \<open>download_image\<close> with the same \<open>save_path\<close> and \<open>base_dir\<close>,
  under configurations with the same \<open>SAVE_DIR\<close> and \<open>WORK_DIR\<close>, resolve the same
  destination: the save-path block gives the same target directory and override (or the
  same early return), and there are one directory \<open>d\<close> and one override \<open>f\<close> such
  that each run probes no directory but \<open>d\<close> and writes its artifacts to
  \<open>path.join(d, name)\<close>, the names being those of its own task id under \<open>f\<close>. The
  two runs may differ in everything else: task id, answers of the remote service, state
  of the file system.
\<close>

theorem resolution_deterministic:
  assumes "getprop a1 ''save_path'' = getprop a2 ''save_path''"
    and "getprop a1 ''base_dir'' = getprop a2 ''base_dir''"
    and "SAVE_DIR C1 = SAVE_DIR C2" and "WORK_DIR C1 = WORK_DIR C2"
  shows "resolve_target C1 (getprop a1 ''save_path'') = resolve_target C2 (getprop a2 ''save_path'') \<and>
    (\<exists>d f.
       (probed_paths (snd (downloadImage C1 E1 a1)) = [] \<or>
        probed_paths (snd (downloadImage C1 E1 a1)) = [d]) \<and>
       written_paths (snd (downloadImage C1 E1 a1)) =
         map (\<lambda>j. path_join d (filename_of (the_Str (getprop a1 ''task_id'')) f j))
           [0 ..< length (written_paths (snd (downloadImage C1 E1 a1)))] \<and>
       (probed_paths (snd (downloadImage C2 E2 a2)) = [] \<or>
        probed_paths (snd (downloadImage C2 E2 a2)) = [d]) \<and>
       written_paths (snd (downloadImage C2 E2 a2)) =
         map (\<lambda>j. path_join d (filename_of (the_Str (getprop a2 ''task_id'')) f j))
           [0 ..< length (written_paths (snd (downloadImage C2 E2 a2)))])"
proof -
  have same: "resolve_target C1 (getprop a1 ''save_path'') = resolve_target C2 (getprop a2 ''save_path'')"
    using assms(1,3) resolve_target_config [of C1 C2] by simp
  have base: "baseDir_of C1 a1 = baseDir_of C2 a2"
    using assms(2,4) by (simp add: baseDir_of_def)
  show ?thesis
  proof (cases "resolve_target C1 (getprop a1 ''save_path'')")
    case (Inl invalid)
    with same run_uses_resolution [of C1 E1 a1] run_uses_resolution [of C2 E2 a2]
    show ?thesis by auto
  next
    case (Inr tf)
    then obtain t f where tf: "resolve_target C1 (getprop a1 ''save_path'') = Inr (t, f)"
      by (cases tf) auto
    with same have tf2: "resolve_target C2 (getprop a2 ''save_path'') = Inr (t, f)" by simp
    let ?d = "absoluteTargetDir_of (baseDir_of C1 a1) t"
    from run_uses_resolution [of C1 E1 a1] tf
    have r1: "(probed_paths (snd (downloadImage C1 E1 a1)) = [] \<or>
        probed_paths (snd (downloadImage C1 E1 a1)) = [?d]) \<and>
       written_paths (snd (downloadImage C1 E1 a1)) =
         map (\<lambda>j. path_join ?d (filename_of (the_Str (getprop a1 ''task_id'')) f j))
           [0 ..< length (written_paths (snd (downloadImage C1 E1 a1)))]"
      by auto
    from run_uses_resolution [of C2 E2 a2] tf2 base
    have r2: "(probed_paths (snd (downloadImage C2 E2 a2)) = [] \<or>
        probed_paths (snd (downloadImage C2 E2 a2)) = [?d]) \<and>
       written_paths (snd (downloadImage C2 E2 a2)) =
         map (\<lambda>j. path_join ?d (filename_of (the_Str (getprop a2 ''task_id'')) f j))
           [0 ..< length (written_paths (snd (downloadImage C2 E2 a2)))]"
      by auto
    from same r1 r2 show ?thesis by blast
  qed
qed

text \<open>
  Witness for C8: two tasks, the first in an empty file system, the second with a
  regular file at the destination.
\<close>

theorem resolution_deterministic_witness:
  "getprop (Obj [(''task_id'', Str ''t1''), (''save_path'', Str ''/tmp/out'')]) ''save_path'' =
   getprop (Obj [(''task_id'', Str ''t2''), (''save_path'', Str ''/tmp/out'')]) ''save_path'' \<and>
   getprop (Obj [(''task_id'', Str ''t1''), (''save_path'', Str ''/tmp/out'')]) ''base_dir'' =
   getprop (Obj [(''task_id'', Str ''t2''), (''save_path'', Str ''/tmp/out'')]) ''base_dir'' \<and>
   (\<exists>d f.
      (probed_paths (snd (downloadImage example_config (example_env two_artifacts)
          (Obj [(''task_id'', Str ''t1''), (''save_path'', Str ''/tmp/out'')]))) = [] \<or>
       probed_paths (snd (downloadImage example_config (example_env two_artifacts)
          (Obj [(''task_id'', Str ''t1''), (''save_path'', Str ''/tmp/out'')]))) = [d]) \<and>
      written_paths (snd (downloadImage example_config (example_env two_artifacts)
          (Obj [(''task_id'', Str ''t1''), (''save_path'', Str ''/tmp/out'')]))) =
        map (\<lambda>j. path_join d (filename_of ''t1'' f j))
          [0 ..< length (written_paths (snd (downloadImage example_config
             (example_env two_artifacts)
             (Obj [(''task_id'', Str ''t1''), (''save_path'', Str ''/tmp/out'')]))))] \<and>
      (probed_paths (snd (downloadImage example_config (blocked_env two_artifacts)
          (Obj [(''task_id'', Str ''t2''), (''save_path'', Str ''/tmp/out'')]))) = [] \<or>
       probed_paths (snd (downloadImage example_config (blocked_env two_artifacts)
          (Obj [(''task_id'', Str ''t2''), (''save_path'', Str ''/tmp/out'')]))) = [d]) \<and>
      written_paths (snd (downloadImage example_config (blocked_env two_artifacts)
          (Obj [(''task_id'', Str ''t2''), (''save_path'', Str ''/tmp/out'')]))) =
        map (\<lambda>j. path_join d (filename_of ''t2'' f j))
          [0 ..< length (written_paths (snd (downloadImage example_config
             (blocked_env two_artifacts)
             (Obj [(''task_id'', Str ''t2''), (''save_path'', Str ''/tmp/out'')]))))])"
  using resolution_deterministic
    [of "Obj [(''task_id'', Str ''t1''), (''save_path'', Str ''/tmp/out'')]"
        "Obj [(''task_id'', Str ''t2''), (''save_path'', Str ''/tmp/out'')]"
        example_config example_config "example_env two_artifacts" "blocked_env two_artifacts"]
  by simp

subsection \<open>C9: \<open>base_dir\<close> does not matter for an accepted call\<close>

lemma resolve_target_valid:
  assumes "isValidTaskIdArgs args" and "path_isAbsolute (SAVE_DIR C)"
  shows "\<exists>t f. resolve_target C (getprop args ''save_path'') = Inr (t, f) \<and> path_isAbsolute t"
proof (cases "truthy (getprop args ''save_path'')")
  case False
  with assms(2) show ?thesis by (simp add: resolve_target_def)
next
  case True
  with assms(1) obtain s where s: "getprop args ''save_path'' = Str s" "path_isAbsolute s"
    by (cases "getprop args ''save_path''") (auto simp: isValidTaskIdArgs_def)
  then have slash: "CHR ''/'' \<in> set s" by (cases s) auto
  show ?thesis
    using s slash path_dirname_absolute [of s]
    by (auto simp: resolve_target_def Let_def)
qed

lemma save_all_absolute:
  assumes "path_isAbsolute t"
  shows "fst (save_all E tid b1 t f urls) = fst (save_all E tid b2 t f urls) \<and>
         io_effects (snd (save_all E tid b1 t f urls)) = io_effects (snd (save_all E tid b2 t f urls))"
  using assms
  by (auto simp: save_all_def absoluteTargetDir_of_def Let_def split: option.splits prod.splits)

text \<open>
  C9: when \<open>SAVE_DIR\<close> is absolute, two accepted calls with the same \<open>task_id\<close> and
  \<open>save_path\<close> (so differing in \<open>base_dir\<close> at most), in the same environment,
  return the same outcome, with the same \<open>saved_to\<close> paths, and have the same effects
  apart from the line logged by \<open>console.error\<close>, which quotes the base directory.
  The reason is the one the claim gives: the save-path block returns an absolute
  \<open>targetDir\<close>, which is the resolved directory whatever the base directory is, so
  \<open>path.join(baseDir, targetDir)\<close> is never evaluated.
\<close>

theorem base_dir_irrelevant:
  assumes "isValidTaskIdArgs a1" and "isValidTaskIdArgs a2"
    and "getprop a1 ''task_id'' = getprop a2 ''task_id''"
    and "getprop a1 ''save_path'' = getprop a2 ''save_path''"
    and "path_isAbsolute (SAVE_DIR C)"
  shows "fst (downloadImage C E a1) = fst (downloadImage C E a2) \<and>
         io_effects (snd (downloadImage C E a1)) = io_effects (snd (downloadImage C E a2)) \<and>
         (\<exists>t f. resolve_target C (getprop a1 ''save_path'') = Inr (t, f) \<and>
            path_isAbsolute t \<and>
            absoluteTargetDir_of (baseDir_of C a1) t = t \<and>
            absoluteTargetDir_of (baseDir_of C a2) t = t)"
proof -
  from resolve_target_valid [OF assms(1,5)]
  obtain t f where tf: "resolve_target C (getprop a1 ''save_path'') = Inr (t, f)" "path_isAbsolute t"
    by blast
  let ?tid = "the_Str (getprop a1 ''task_id'')"
  have run: "downloadImage C E a =
      (case api_get E (''/tasks/'' @ ?tid) of
         Inl error \<Rightarrow> (catch_error E error, [ApiGet (''/tasks/'' @ ?tid)])
       | Inr statusData \<Rightarrow>
           (case task_status_of statusData of
              Inl error \<Rightarrow> (catch_error E error, [ApiGet (''/tasks/'' @ ?tid)])
            | Inr task_status \<Rightarrow>
                if task_status \<noteq> Str ''SUCCEEDED'' then
                  (Returned \<lparr>text_of = ''Task not completed or failed: '' @ stringify2 E statusData,
                             isError = True\<rparr>, [ApiGet (''/tasks/'' @ ?tid)])
                else
                  (case imageUrls_of statusData of
                     Inl error \<Rightarrow> (catch_error E error, [ApiGet (''/tasks/'' @ ?tid)])
                   | Inr imageUrls \<Rightarrow>
                       if imageUrls = [] then
                         (Returned \<lparr>text_of = ''No image URL found'', isError = True\<rparr>,
                          [ApiGet (''/tasks/'' @ ?tid)])
                       else
                         (fst (save_all E ?tid (baseDir_of C a) t f imageUrls),
                          ApiGet (''/tasks/'' @ ?tid) # snd (save_all E ?tid (baseDir_of C a) t f imageUrls)))))"
    if "isValidTaskIdArgs a" "getprop a ''task_id'' = getprop a1 ''task_id''"
       "getprop a ''save_path'' = getprop a1 ''save_path''" for a
    using that tf by (simp add: downloadImage_def Let_def split: sum.splits prod.splits)
  have r1: "fst (downloadImage C E a1) = fst (downloadImage C E a2)"
    using save_all_absolute [OF tf(2), of E ?tid "baseDir_of C a1" f _ "baseDir_of C a2"]
    by (simp add: run [of a1] run [of a2] assms split: sum.splits)
  have r2: "io_effects (snd (downloadImage C E a1)) = io_effects (snd (downloadImage C E a2))"
    using save_all_absolute [OF tf(2), of E ?tid "baseDir_of C a1" f _ "baseDir_of C a2"]
    by (simp add: run [of a1] run [of a2] assms split: sum.splits)
  from tf r1 r2 show ?thesis by (auto simp: absoluteTargetDir_of_def)
qed

text \<open>Witness for C9: the same call with two different \<open>base_dir\<close>.\<close>

theorem base_dir_irrelevant_witness:
  "isValidTaskIdArgs (Obj [(''task_id'', Str ''t9''), (''save_path'', Str ''/tmp/out/pic.png''),
                          (''base_dir'', Str ''/home/u/work'')]) \<and>
   isValidTaskIdArgs (Obj [(''task_id'', Str ''t9''), (''save_path'', Str ''/tmp/out/pic.png''),
                          (''base_dir'', Str ''elsewhere'')]) \<and>
   path_isAbsolute (SAVE_DIR example_config) \<and>
   fst (downloadImage example_config (example_env two_artifacts)
          (Obj [(''task_id'', Str ''t9''), (''save_path'', Str ''/tmp/out/pic.png''),
                (''base_dir'', Str ''/home/u/work'')])) =
   fst (downloadImage example_config (example_env two_artifacts)
          (Obj [(''task_id'', Str ''t9''), (''save_path'', Str ''/tmp/out/pic.png''),
                (''base_dir'', Str ''elsewhere'')])) \<and>
   io_effects (snd (downloadImage example_config (example_env two_artifacts)
          (Obj [(''task_id'', Str ''t9''), (''save_path'', Str ''/tmp/out/pic.png''),
                (''base_dir'', Str ''/home/u/work'')]))) =
   io_effects (snd (downloadImage example_config (example_env two_artifacts)
          (Obj [(''task_id'', Str ''t9''), (''save_path'', Str ''/tmp/out/pic.png''),
                (''base_dir'', Str ''elsewhere'')])))"
  using base_dir_irrelevant
    [of "Obj [(''task_id'', Str ''t9''), (''save_path'', Str ''/tmp/out/pic.png''),
              (''base_dir'', Str ''/home/u/work'')]"
        "Obj [(''task_id'', Str ''t9''), (''save_path'', Str ''/tmp/out/pic.png''),
              (''base_dir'', Str ''elsewhere'')]"
        example_config "example_env two_artifacts"]
  by (simp add: isValidTaskIdArgs_def example_config_def)

subsection \<open>C10: something already exists at the directory path\<close>

text \<open>
  C10: take an accepted call whose task has succeeded with at least one artifact, and
  let something, of whatever kind (\<open>entry\<close> may be a regular file), exist at the
  resolved directory path. Then no directory is created, the result is never the
  \<open>Failed to create directory\<close> one, and when the first artifact is fetched and
  writing it fails with message \<open>msg\<close>, the error of the write is thrown to the
  caller (it is not an error of the HTTP client, so the \<open>catch\<close> block throws it
  again), right after that write.
\<close>

theorem existing_entry_skips_creation:
  assumes "isValidTaskIdArgs args"
    and "api_get E (''/tasks/'' @ the_Str (getprop args ''task_id'')) = Inr statusData"
    and "task_status_of statusData = Inr (Str ''SUCCEEDED'')"
    and "imageUrls_of statusData = Inr (url # urls)"
    and "resolve_target C (getprop args ''save_path'') = Inr (targetDir, customFilename)"
    and "fs_entries E (absoluteTargetDir_of (baseDir_of C args) targetDir) = Some entry"
  shows "created_dirs (snd (downloadImage C E args)) = [] \<and>
    (\<forall>msg. fst (downloadImage C E args) \<noteq>
       Returned \<lparr>text_of = ''Failed to create directory: '' @ msg, isError = True\<rparr>) \<and>
    (\<forall>data msg.
       axios_get E url = Inr data \<and>
       writeFile E
         (path_join (absoluteTargetDir_of (baseDir_of C args) targetDir)
            (filename_of (the_Str (getprop args ''task_id'')) customFilename 0)) data = Some msg \<longrightarrow>
       downloadImage C E args =
         (Thrown (SystemError msg),
          [ApiGet (''/tasks/'' @ the_Str (getprop args ''task_id'')),
           ConsoleError (resolving_message targetDir (baseDir_of C args)
              (absoluteTargetDir_of (baseDir_of C args) targetDir)),
           ExistsSync (absoluteTargetDir_of (baseDir_of C args) targetDir),
           AxiosGet url,
           WriteFile
             (path_join (absoluteTargetDir_of (baseDir_of C args) targetDir)
                (filename_of (the_Str (getprop args ''task_id'')) customFilename 0)) data]))"
proof -
  let ?tid = "the_Str (getprop args ''task_id'')"
  let ?b = "baseDir_of C args"
  let ?d = "absoluteTargetDir_of ?b targetDir"
  let ?log = "ConsoleError (resolving_message targetDir ?b ?d)"
  let ?loop = "download_loop E ?d ?tid customFilename 0 (url # urls)"
  have ex: "existsSync E ?d" using assms(6) by (simp add: existsSync_def)
  have save: "save_all E ?tid ?b targetDir customFilename (url # urls) =
      (finish_download E ?tid (fst ?loop), [?log, ExistsSync ?d] @ snd ?loop)"
    using ex by (simp add: save_all_def Let_def split: prod.splits)
  have run: "downloadImage C E args =
      (finish_download E ?tid (fst ?loop), ApiGet (''/tasks/'' @ ?tid) # [?log, ExistsSync ?d] @ snd ?loop)"
    using downloadImage_reaches_save [OF assms(1-5)] save by simp
  have a: "created_dirs (snd (downloadImage C E args)) = []"
    using run loop_no_dir_effects [of E ?d ?tid customFilename 0 "url # urls"]
    by (simp add: created_dirs_append)
  have b: "\<And>msg. fst (downloadImage C E args) \<noteq>
       Returned \<lparr>text_of = ''Failed to create directory: '' @ msg, isError = True\<rparr>"
    using run finish_download_not_failed by simp
  have c: "downloadImage C E args =
         (Thrown (SystemError msg),
          [ApiGet (''/tasks/'' @ ?tid), ?log, ExistsSync ?d, AxiosGet url,
           WriteFile (path_join ?d (filename_of ?tid customFilename 0)) data])"
    if "axios_get E url = Inr data"
       "writeFile E (path_join ?d (filename_of ?tid customFilename 0)) data = Some msg"
    for data msg
  proof -
    from that have "?loop = (Inl (SystemError msg),
        [AxiosGet url, WriteFile (path_join ?d (filename_of ?tid customFilename 0)) data])"
      by (simp add: Let_def)
    with run show ?thesis by (simp add: finish_download_def)
  qed
  from a b c show ?thesis by blast
qed

text \<open>
  Witness for C10: a regular file stands at \<open>/tmp/out\<close>, the destination of the call.
\<close>

theorem existing_entry_skips_creation_witness:
  "isValidTaskIdArgs (Obj [(''task_id'', Str ''t1''), (''save_path'', Str ''/tmp/out'')]) \<and>
   fs_entries (blocked_env two_artifacts) ''/tmp/out'' = Some RegularFile \<and>
   created_dirs (snd (downloadImage example_config (blocked_env two_artifacts)
       (Obj [(''task_id'', Str ''t1''), (''save_path'', Str ''/tmp/out'')]))) = [] \<and>
   downloadImage example_config (blocked_env two_artifacts)
     (Obj [(''task_id'', Str ''t1''), (''save_path'', Str ''/tmp/out'')])
   = (Thrown (SystemError ''ENOTDIR: not a directory, open''),
      [ApiGet ''/tasks/t1'',
       ConsoleError ''Resolving path: /tmp/out against base: /srv/work => /tmp/out'',
       ExistsSync ''/tmp/out'',
       AxiosGet (Str ''https://host/a.png''),
       WriteFile ''/tmp/out/t1_0.png'' ''PNG''])"
proof -
  let ?args = "Obj [(''task_id'', Str ''t1''), (''save_path'', Str ''/tmp/out'')]"
  let ?E = "blocked_env two_artifacts"
  have valid: "isValidTaskIdArgs ?args" by (simp add: isValidTaskIdArgs_def)
  have status: "api_get ?E (''/tasks/'' @ the_Str (getprop ?args ''task_id'')) = Inr two_artifacts"
    by (simp add: blocked_env_def example_env_def)
  have succeeded: "task_status_of two_artifacts = Inr (Str ''SUCCEEDED'')" by code_simp
  have urls: "imageUrls_of two_artifacts =
      Inr (Str ''https://host/a.png'' # [Str ''https://host/b.png''])"
    by code_simp
  have target: "resolve_target example_config (getprop ?args ''save_path'') =
      Inr (''/tmp/out'', None)"
    by code_simp
  have dir: "absoluteTargetDir_of (baseDir_of example_config ?args) ''/tmp/out'' = ''/tmp/out''"
    by (simp add: absoluteTargetDir_of_def)
  have entry: "fs_entries ?E (absoluteTargetDir_of (baseDir_of example_config ?args) ''/tmp/out'') =
      Some RegularFile"
    unfolding dir by (simp add: blocked_env_def example_env_def)
  have fetch: "axios_get ?E (Str ''https://host/a.png'') = Inr ''PNG''"
    by (simp add: blocked_env_def example_env_def)
  have path: "path_join ''/tmp/out'' (filename_of ''t1'' None 0) = ''/tmp/out/t1_0.png''"
    by code_simp
  have wfail: "writeFile ?E ''/tmp/out/t1_0.png'' ''PNG'' = Some ''ENOTDIR: not a directory, open''"
    by (simp add: blocked_env_def example_env_def)
  have log: "resolving_message ''/tmp/out'' (baseDir_of example_config ?args) ''/tmp/out'' =
      ''Resolving path: /tmp/out against base: /srv/work => /tmp/out''"
    by code_simp
  from existing_entry_skips_creation [OF valid status succeeded urls target entry]
  have "created_dirs (snd (downloadImage example_config ?E ?args)) = []"
    and "downloadImage example_config ?E ?args =
      (Thrown (SystemError ''ENOTDIR: not a directory, open''),
       [ApiGet ''/tasks/t1'',
        ConsoleError ''Resolving path: /tmp/out against base: /srv/work => /tmp/out'',
        ExistsSync ''/tmp/out'',
        AxiosGet (Str ''https://host/a.png''),
        WriteFile ''/tmp/out/t1_0.png'' ''PNG''])"
    using fetch wfail by (simp_all add: dir path log)
  with valid entry show ?thesis unfolding dir by simp
qed

end
